theory Spec2Isabelle
  imports Main "HOL-Library.Word"
begin

section \<open>The lookup package: sources, tags, coercion and the resolution pass\<close>

text \<open>
  The repository holds three generations of \<open>lookup.go\<close> (all in
  \<open>src/unnamed/part_002\<close>):
  \<^item> lines 1-195: \<open>Lookup\<close> with the helpers \<open>lookupKey\<close>, \<open>findTag\<close> and \<open>setField\<close>;
  \<^item> lines 196-387: \<open>Lookup\<close> with the tag scan and the coercion written inline, here
    \<open>Lookup_inline\<close>;
  \<^item> lines 388-631: \<open>Lookup\<close> over one \<open>Looker\<close> (usually a \<open>Seq\<close>), with one case per
    native type and \<open>strconv\<close>, here \<open>Lookup_typed\<close>.
  Each is embedded below under a name of its own.
\<close>

subsection \<open>Errors, replies and sources\<close>

text \<open>
  Go types of the flat fields the package distinguishes. \<open>W0\<close> is the width of the plain
  \<open>int\<close>/\<open>uint\<close>, the others the sized variants; \<open>TComplex F32\<close> is \<open>complex64\<close>, whose
  parts are 32 bits wide.
\<close>

datatype width = W0 | W8 | W16 | W32 | W64

datatype fwidth = F32 | F64

datatype kind =
    TString | TBytes | TBool
  | TInt width | TUint width
  | TFloat fwidth | TComplex fwidth
  | TOther string

text \<open>
  An \<open>error\<close> value. \<open>Message\<close> is an error made from a plain text (\<open>errors.New\<close>, or an
  error of a source adapter or of the standard library); the other constructors are the
  formatted errors of \<open>Lookup\<close>, with the arguments of their format strings, and
  \<open>NumError f s\<close> is \<open>strconv\<close>'s syntax error of function \<open>f\<close> on input \<open>s\<close>.
\<close>

datatype error =
    Message string
  | CorruptInputError nat
  | LookupFailed string error
  | WrongType string string kind error
  | MissingValue string
  | NotAddressable string
  | NumError string string

text \<open>What \<open>LookupKey\<close> returns: \<open>(v, b, err)\<close>, a nil \<open>err\<close> being \<open>None\<close>.\<close>

type_synonym reply = "string \<times> bool \<times> error option"

text \<open>
  A \<open>Looker\<close>. Sources may read and change state of their own (the environment, a file
  parsed once), so a call takes the state \<open>'s\<close> of the sources and returns the new one.
\<close>

type_synonym 's looker = "string \<Rightarrow> 's \<Rightarrow> reply \<times> 's"

definition NoError_LookupKey :: "(string \<Rightarrow> 's \<Rightarrow> (string \<times> bool) \<times> 's) \<Rightarrow> 's looker" where
  "NoError_LookupKey F s st = (case F s st of ((v, b), st') \<Rightarrow> ((v, b, None), st'))"

definition NoBool_LookupKey :: "(string \<Rightarrow> 's \<Rightarrow> (string \<times> error option) \<times> 's) \<Rightarrow> 's looker" where
  "NoBool_LookupKey F s st = (case F s st of ((v, err), st') \<Rightarrow> ((v, err \<noteq> None, err), st'))"

definition Map_LookupKey :: "(string \<rightharpoonup> string) \<Rightarrow> 's looker" where
  "Map_LookupKey l s st = (case l s of Some v \<Rightarrow> ((v, True, None), st) | None \<Rightarrow> (('''', False, None), st))"

text \<open>The test \<open>err == nil && b\<close> that ends the loop of \<open>lookupKey\<close>.\<close>

fun accepted :: "reply \<Rightarrow> bool" where
  "accepted (v, b, err) = (err = None \<and> b)"

text \<open>
  \<open>lookupKey\<close> (lines 70-78) and \<open>Seq.LookupKey\<close> (lines 452-461) are the same loop. The
  second argument of \<open>lookupKey_from\<close> holds the named results \<open>v, b, err\<close>, which start at
  their zero values.
\<close>

fun lookupKey_from :: "string \<Rightarrow> reply \<Rightarrow> 's looker list \<Rightarrow> 's \<Rightarrow> reply \<times> 's" where
  "lookupKey_from s r [] st = (r, st)"
| "lookupKey_from s r (e # l) st =
     (case e s st of (r', st') \<Rightarrow>
        if accepted r' then (r', st') else lookupKey_from s r' l st')"

definition lookupKey :: "string \<Rightarrow> 's looker list \<Rightarrow> 's \<Rightarrow> reply \<times> 's" where
  "lookupKey s l st = lookupKey_from s ('''', False, None) l st"

definition Seq_LookupKey :: "'s looker list \<Rightarrow> 's looker" where
  "Seq_LookupKey l s st = lookupKey s l st"

subsection \<open>The resolver as the specification words it\<close>

text \<open>
  \<open>call_all\<close> calls every source in list order, each in the state its predecessor left,
  and lists each reply with the state after it. \<open>resolve_spec\<close> follows section 4.1: the
  first reply with \<open>found = true\<close> and no error, else the last reply, else
  \<open>("", false, nil)\<close> for no source at all. The state it returns is the one right after the
  call it answers with: the sources behind it have not been called.
\<close>

fun call_all :: "string \<Rightarrow> 's looker list \<Rightarrow> 's \<Rightarrow> (reply \<times> 's) list" where
  "call_all s [] st = []"
| "call_all s (e # l) st = (case e s st of (r, st') \<Rightarrow> (r, st') # call_all s l st')"

definition resolve_spec :: "string \<Rightarrow> 's looker list \<Rightarrow> 's \<Rightarrow> reply \<times> 's" where
  "resolve_spec s l st =
     (case find (\<lambda>c. accepted (fst c)) (call_all s l st) of
        Some c \<Rightarrow> c
      | None \<Rightarrow> if l = [] then (('''', False, None), st) else last (call_all s l st))"

subsection \<open>Values, fields and the effects of a pass\<close>

text \<open>
  The value a field holds, by its Go type. Floating-point numbers and the values of
  types the package does not know are made by \<open>strconv\<close> and \<open>fmt\<close> and never inspected
  here: they are values of an arbitrary type \<open>'x\<close>.
\<close>

datatype 'x gvalue =
    VString string
  | VBytes "8 word list"
  | VBool bool
  | VInt width int
  | VUint width nat
  | VFloat fwidth 'x
  | VComplex fwidth 'x 'x
  | VOther string 'x

fun kind_of :: "'x gvalue \<Rightarrow> kind" where
  "kind_of (VString _) = TString"
| "kind_of (VBytes _) = TBytes"
| "kind_of (VBool _) = TBool"
| "kind_of (VInt w _) = TInt w"
| "kind_of (VUint w _) = TUint w"
| "kind_of (VFloat w _) = TFloat w"
| "kind_of (VComplex w _ _) = TComplex w"
| "kind_of (VOther n _) = TOther n"

text \<open>
  One field of the record: \<open>reflect.StructField\<close>'s name and tag (the \<open>key:"value"\<close>
  pairs of the tag string in their order; \<open>StructTag.Lookup\<close> answers with the first pair
  of a key), whether the field is exported, and the value it holds.
\<close>

record 'x field =
  Name :: string
  Tag :: "(string \<times> string) list"
  Exported :: bool
  Value :: "'x gvalue"

text \<open>
  What a pass does besides returning, in the order it does it: a store into a field and a
  call of \<open>Report\<close>. A \<open>Reporter\<close> is given by the events a call of it leaves: \<open>discard\<close>
  leaves none, \<open>recorder\<close> (the \<open>entries\<close> of the tests) the call itself.
\<close>

datatype 'x event = Stored string "'x gvalue" | Reported string "'x gvalue"

type_synonym 'x reporter = "string \<Rightarrow> 'x gvalue \<Rightarrow> 'x event list"

definition discard :: "'x reporter" where
  "discard key e = []"

definition recorder :: "'x reporter" where
  "recorder key e = [Reported key e]"

text \<open>How a call ends: it returns nil, returns an error, or panics.\<close>

datatype outcome = Ok | Err error | Panic string

text \<open>What \<open>Lookup\<close> is handed as \<open>e\<close>.\<close>

datatype 'x target = NotPointer | NilPointer | PtrNonStruct | PtrStruct "'x field list"

subsection \<open>Standard library: strings.Split and base64.RawStdEncoding\<close>

text \<open>\<open>strings.Split(s, ",")\<close>: the pieces between the commas, one piece for no comma.\<close>

fun strings_Split :: "string \<Rightarrow> string list" where
  "strings_Split [] = [[]]"
| "strings_Split (c # cs) =
     (if c = CHR '','' then [] # strings_Split cs
      else (case strings_Split cs of p # ps \<Rightarrow> (c # p) # ps | [] \<Rightarrow> [[c]]))"

text \<open>
  \<open>encoding/base64\<close> with the standard alphabet and no padding. \<open>EncodeToString\<close> packs
  three bytes into 24 bits (\<open>uint(a)<<16 | uint(b)<<8 | uint(c)\<close>) and writes four
  6-bit digits (\<open>val>>18&0x3F\<close>, ...); one or two bytes left over give two or three
  digits. The shifts and masks are written as multiplications, \<open>div\<close> and \<open>mod\<close>.
\<close>

definition encodeStd :: string where
  "encodeStd = ''ABCDEFGHIJKLMNOPQRSTUVWXYZabcdefghijklmnopqrstuvwxyz0123456789+/''"

definition digit :: "nat \<Rightarrow> char" where
  "digit n = encodeStd ! n"

fun EncodeToString :: "8 word list \<Rightarrow> string" where
  "EncodeToString (a # b # c # src) =
     (let val = unat a * 65536 + unat b * 256 + unat c
      in digit (val div 262144 mod 64) # digit (val div 4096 mod 64) #
         digit (val div 64 mod 64) # digit (val mod 64) # EncodeToString src)"
| "EncodeToString [a, b] =
     (let val = unat a * 65536 + unat b * 256
      in [digit (val div 262144 mod 64), digit (val div 4096 mod 64), digit (val div 64 mod 64)])"
| "EncodeToString [a] =
     (let val = unat a * 65536
      in [digit (val div 262144 mod 64), digit (val div 4096 mod 64)])"
| "EncodeToString [] = []"

text \<open>
  The decoder. \<open>decodeMap\<close> is the inverse table of the alphabet. \<open>decode_from src si dbuf\<close>
  is \<open>Decode\<close> at input offset \<open>si\<close> with the digits \<open>dbuf\<close> of the current quantum read:
  a digit joins the quantum, and the fourth one completes it; \<open>\r\<close> and \<open>\n\<close> are skipped;
  any other character is \<open>CorruptInputError\<close> at its offset; at the end of the input one
  dangling digit is \<open>CorruptInputError\<close>, two or three give one or two bytes. No strict
  mode: the unused low bits of a short quantum are dropped. The bytes decoded before an
  error are returned with it, as \<open>DecodeString\<close> returns \<open>dbuf[:n], err\<close>.
\<close>

fun index_of :: "'a list \<Rightarrow> 'a \<Rightarrow> nat \<Rightarrow> nat option" where
  "index_of [] c i = None"
| "index_of (x # xs) c i = (if x = c then Some i else index_of xs c (Suc i))"

definition decodeMap :: "char \<Rightarrow> nat option" where
  "decodeMap c = index_of encodeStd c 0"

definition quantum_bytes :: "nat list \<Rightarrow> 8 word list" where
  "quantum_bytes dbuf =
     (let d = dbuf @ replicate (4 - length dbuf) 0;
          val = d ! 0 * 262144 + d ! 1 * 4096 + d ! 2 * 64 + d ! 3
      in take (length dbuf - 1) [of_nat (val div 65536), of_nat (val div 256), of_nat val])"

fun decode_from :: "string \<Rightarrow> nat \<Rightarrow> nat list \<Rightarrow> 8 word list \<times> error option" where
  "decode_from [] si dbuf =
     (if dbuf = [] then ([], None)
      else if length dbuf = 1 then ([], Some (CorruptInputError (si - 1)))
      else (quantum_bytes dbuf, None))"
| "decode_from (c # src) si dbuf =
     (case decodeMap c of
        Some out \<Rightarrow>
          if length dbuf = 3
          then (case decode_from src (Suc si) [] of
                  (bs, err) \<Rightarrow> (quantum_bytes (dbuf @ [out]) @ bs, err))
          else decode_from src (Suc si) (dbuf @ [out])
      | None \<Rightarrow>
          if c = CHR 0x0A \<or> c = CHR 0x0D then decode_from src (Suc si) dbuf
          else ([], Some (CorruptInputError si)))"

definition DecodeString :: "string \<Rightarrow> 8 word list \<times> error option" where
  "DecodeString s = decode_from s 0 []"

subsection \<open>Tags: lookupTags and findTag (lines 92-97, 144-164)\<close>

definition lookupTags :: "(string \<times> string) list" where
  "lookupTags = [(''json'', ''omitempty''), (''lookup'', ''optional'')]"

definition notFound :: string where
  "notFound = []"

text \<open>
  The \<open>switch len(parts)\<close> of \<open>findTag\<close>: the local \<open>key\<close> starts empty, and the named
  result \<open>optional\<close> is false unless the last case sets it.
\<close>

fun findTag_from :: "(string \<times> string) list \<Rightarrow> (string \<times> string) list \<Rightarrow> string \<times> bool" where
  "findTag_from [] tag = (notFound, False)"
| "findTag_from ((t, opt) # defs) tag =
     (case map_of tag t of
        None \<Rightarrow> findTag_from defs tag
      | Some s \<Rightarrow>
          if s \<noteq> [] then
            (case strings_Split s of
               [] \<Rightarrow> ([], False)
             | [p] \<Rightarrow> (s, False)
             | p0 # p1 # ps \<Rightarrow> (p0, p1 = opt))
          else findTag_from defs tag)"

definition findTag :: "(string \<times> string) list \<Rightarrow> string \<times> bool" where
  "findTag tag = findTag_from lookupTags tag"

subsection \<open>The tag extraction as the specification words it\<close>

text \<open>
  The extraction as section 4.2 words it, for the value \<open>s\<close> of the winning tag, its
  optional marker and the declared name of the field.
\<close>

definition extract_spec :: "string \<Rightarrow> string \<Rightarrow> string \<Rightarrow> string \<times> bool" where
  "extract_spec name marker s =
     (let parts = strings_Split s in
      if length parts = 0 then (name, False)
      else if length parts = 1 then (parts ! 0, False)
      else (parts ! 0, parts ! 1 = marker))"

subsection \<open>setField and Lookup (lines 103-142, 166-195)\<close>

text \<open>
  \<open>fmt.Sscanln\<close> is a parameter: given the text and the value the field holds (which
  fixes the type scanned for), it returns the count, the error and the value the field
  holds after the call.
\<close>

type_synonym 'x scanner = "string \<Rightarrow> 'x gvalue \<Rightarrow> nat \<times> error option \<times> 'x gvalue"

text \<open>
  A field reached through \<open>value.Elem().Field(i)\<close> of a pointer is addressable.
  \<open>field.Interface()\<close> panics on a field that is not exported.
\<close>

definition CanAddr :: "'x field \<Rightarrow> bool" where
  "CanAddr field = True"

definition unexported_panic :: string where
  "unexported_panic = ''reflect.Value.Interface: cannot return value obtained from unexported field or method''"

definition setField ::
  "'x scanner \<Rightarrow> 'x reporter \<Rightarrow> 'x field \<Rightarrow> string \<Rightarrow> string \<Rightarrow> outcome \<times> 'x field \<times> 'x event list" where
  "setField Sscanln r field v fieldKey =
     (if \<not> Exported field then (Panic unexported_panic, field, [])
      else case kind_of (Value field) of
        TString \<Rightarrow>
          (let field' = field\<lparr>Value := VString v\<rparr>
           in (Ok, field', Stored (Name field) (VString v) # r fieldKey (Value field')))
      | TBytes \<Rightarrow>
          (case DecodeString v of
             (b, Some err) \<Rightarrow> (Err err, field, [])
           | (b, None) \<Rightarrow>
               (Ok, field\<lparr>Value := VBytes b\<rparr>, Stored (Name field) (VBytes b) # r fieldKey (VBytes b)))
      | _ \<Rightarrow>
          if \<not> CanAddr field then (Err (NotAddressable v), field, [])
          else (case Sscanln (v @ [CHR 0x0A]) (Value field) of
                  (n, err, x) \<Rightarrow>
                    (let field' = field\<lparr>Value := x\<rparr> in
                     case err of
                       Some e \<Rightarrow> (Err e, field', [Stored (Name field) x])
                     | None \<Rightarrow>
                         if n \<noteq> 1 then (Err (Message ''nothing to read''), field', [Stored (Name field) x])
                         else (Ok, field', Stored (Name field) x # r fieldKey (Value field')))))"

text \<open>
  The loop \<open>for i := 0; i < t.NumField(); i++\<close>, the same in the three generations: \<open>body\<close>
  is one iteration, and the first iteration that does not end in \<open>Ok\<close> ends the pass.
  The fields come back as the pass leaves them.
\<close>

fun Lookup_loop ::
  "('x field \<Rightarrow> 's \<Rightarrow> outcome \<times> 'x field \<times> 'x event list \<times> 's) \<Rightarrow> 'x field list \<Rightarrow> 's \<Rightarrow>
     outcome \<times> 'x field list \<times> 'x event list \<times> 's" where
  "Lookup_loop body [] st = (Ok, [], [], st)"
| "Lookup_loop body (f # fs) st =
     (case body f st of (out, f', evs, st') \<Rightarrow>
        (case out of
           Ok \<Rightarrow> (case Lookup_loop body fs st' of
                    (out', fs', evs', st'') \<Rightarrow> (out', f' # fs', evs @ evs', st''))
         | _ \<Rightarrow> (out, f' # fs, evs, st')))"

definition Lookup_field ::
  "'x scanner \<Rightarrow> 'x reporter \<Rightarrow> 's looker list \<Rightarrow> 'x field \<Rightarrow> 's \<Rightarrow> outcome \<times> 'x field \<times> 'x event list \<times> 's" where
  "Lookup_field Sscanln r seq field st =
     (case findTag (Tag field) of (fieldKey, optional) \<Rightarrow>
        if fieldKey = notFound then (Ok, field, [], st)
        else (case lookupKey fieldKey seq st of ((v, ok, err), st') \<Rightarrow>
          (case err of
             Some e \<Rightarrow> (Err (LookupFailed (Name field) e), field, [], st')
           | None \<Rightarrow>
               if ok then
                 (case setField Sscanln r field v fieldKey of (out, field', evs) \<Rightarrow>
                    (case out of
                       Err e \<Rightarrow> (Err (WrongType v (Name field) (kind_of (Value field')) e), field', evs, st')
                     | _ \<Rightarrow> (out, field', evs, st')))
               else if \<not> optional then (Err (MissingValue (Name field)), field, [], st')
               else (Ok, field, r fieldKey (VString v), st'))))"

definition reporter_or_discard :: "'x reporter option \<Rightarrow> 'x reporter" where
  "reporter_or_discard r = (case r of None \<Rightarrow> discard | Some r' \<Rightarrow> r')"

definition needs_pointer :: error where
  "needs_pointer = Message ''Lookup needs a pointer argument''"

definition run_pass ::
  "('x field \<Rightarrow> 's \<Rightarrow> outcome \<times> 'x field \<times> 'x event list \<times> 's) \<Rightarrow> 'x target \<Rightarrow> 's \<Rightarrow>
     outcome \<times> 'x target \<times> 'x event list \<times> 's" where
  "run_pass body e st =
     (case e of
        PtrStruct fs \<Rightarrow>
          (case Lookup_loop body fs st of (out, fs', evs, st') \<Rightarrow> (out, PtrStruct fs', evs, st'))
      | PtrNonStruct \<Rightarrow> (Panic ''reflect: NumField of non-struct type'', e, [], st)
      | _ \<Rightarrow> (Err needs_pointer, e, [], st))"

definition Lookup ::
  "'x scanner \<Rightarrow> 'x target \<Rightarrow> 'x reporter option \<Rightarrow> 's looker list \<Rightarrow> 's \<Rightarrow>
     outcome \<times> 'x target \<times> 'x event list \<times> 's" where
  "Lookup Sscanln e r seq st = run_pass (Lookup_field Sscanln (reporter_or_discard r) seq) e st"

subsection \<open>Lookup with the inline tag scan and coercion (lines 299-387)\<close>

text \<open>
  The tag scan of lines 320-336 runs over both entries of \<open>lookupTags\<close> and never leaves
  the loop early: \<open>fieldKey\<close>, \<open>optional\<close> and \<open>found\<close> are assigned by every entry that is
  present and not empty, and \<open>optional\<close> only by an entry with two parts or more.
\<close>

fun scanTags ::
  "(string \<times> string) list \<Rightarrow> (string \<times> string) list \<Rightarrow> string \<times> bool \<times> bool \<Rightarrow> string \<times> bool \<times> bool" where
  "scanTags [] tag acc = acc"
| "scanTags ((t, opt) # defs) tag (fieldKey, optional, found) =
     (case map_of tag t of
        None \<Rightarrow> scanTags defs tag (fieldKey, optional, found)
      | Some s \<Rightarrow>
          if s \<noteq> [] then
            (case strings_Split s of
               [] \<Rightarrow> scanTags defs tag ([], optional, True)
             | [p] \<Rightarrow> scanTags defs tag (s, optional, True)
             | p0 # p1 # ps \<Rightarrow> scanTags defs tag (p0, p1 = opt, True))
          else scanTags defs tag (fieldKey, optional, found))"

text \<open>
  Lines 345-378. In the \<open>[]byte\<close> case \<open>b, err :=\<close> declares a new \<open>err\<close>, so the outer one
  stays nil; the bytes are stored when the decoder fails. In the default case \<open>Report\<close>
  is handed the text \<open>v\<close>; the error names the type of \<open>val\<close>, read before the scan.
\<close>

definition coerce_inline ::
  "'x scanner \<Rightarrow> 'x reporter \<Rightarrow> 'x field \<Rightarrow> string \<Rightarrow> string \<Rightarrow> outcome \<times> 'x field \<times> 'x event list" where
  "coerce_inline Sscanln r field v fieldKey =
     (if \<not> Exported field then (Panic unexported_panic, field, [])
      else case kind_of (Value field) of
        TString \<Rightarrow>
          (Ok, field\<lparr>Value := VString v\<rparr>, Stored (Name field) (VString v) # r fieldKey (VString v))
      | TBytes \<Rightarrow>
          (case DecodeString v of
             (b, Some err) \<Rightarrow>
               (Ok, field\<lparr>Value := VBytes b\<rparr>, Stored (Name field) (VBytes b) # r fieldKey (VBytes b))
           | (b, None) \<Rightarrow> (Ok, field, r fieldKey (VBytes b)))
      | _ \<Rightarrow>
          if CanAddr field then
            (case Sscanln (v @ [CHR 0x0A]) (Value field) of
               (n, err, x) \<Rightarrow>
                 (let err' = (if err = None \<and> n \<noteq> 1 then Some (Message []) else err) in
                  case err' of
                    None \<Rightarrow> (Ok, field\<lparr>Value := x\<rparr>, Stored (Name field) x # r fieldKey (VString v))
                  | Some e \<Rightarrow>
                      (Err (WrongType v (Name field) (kind_of (Value field)) e),
                       field\<lparr>Value := x\<rparr>, [Stored (Name field) x])))
          else (Err (NotAddressable v), field, []))"

definition Lookup_inline_field ::
  "'x scanner \<Rightarrow> 'x reporter \<Rightarrow> 's looker list \<Rightarrow> 'x field \<Rightarrow> 's \<Rightarrow> outcome \<times> 'x field \<times> 'x event list \<times> 's" where
  "Lookup_inline_field Sscanln r seq field st =
     (case scanTags lookupTags (Tag field) (Name field, False, False) of
        (fieldKey, optional, found) \<Rightarrow>
          if \<not> found then (Ok, field, [], st)
          else (case lookupKey fieldKey seq st of ((v, ok, err), st') \<Rightarrow>
            (case err of
               Some e \<Rightarrow> (Err (LookupFailed (Name field) e), field, [], st')
             | None \<Rightarrow>
                 if ok then
                   (case coerce_inline Sscanln r field v fieldKey of
                      (out, field', evs) \<Rightarrow> (out, field', evs, st'))
                 else if \<not> optional then (Err (MissingValue (Name field)), field, [], st')
                 else (Ok, field, r fieldKey (VString v), st'))))"

definition Lookup_inline ::
  "'x scanner \<Rightarrow> 'x target \<Rightarrow> 'x reporter option \<Rightarrow> 's looker list \<Rightarrow> 's \<Rightarrow>
     outcome \<times> 'x target \<times> 'x event list \<times> 's" where
  "Lookup_inline Sscanln e r seq st =
     run_pass (Lookup_inline_field Sscanln (reporter_or_discard r) seq) e st"

subsection \<open>Lookup with one case per native type (lines 478-631)\<close>

text \<open>
  \<open>strconv.ParseBool\<close> accepts twelve spellings. \<open>ParseInt\<close>, \<open>ParseUint\<close> and
  \<open>ParseFloat\<close> are parameters: the text, the base (integers only) and the bit size give
  an error or the number.
\<close>

definition ParseBool :: "string \<Rightarrow> error + bool" where
  "ParseBool str =
     (if str \<in> set [''1'', ''t'', ''T'', ''TRUE'', ''true'', ''True''] then Inr True
      else if str \<in> set [''0'', ''f'', ''F'', ''FALSE'', ''false'', ''False''] then Inr False
      else Inl (NumError ''ParseBool'' str))"

record 'x strconv =
  ParseInt :: "string \<Rightarrow> nat \<Rightarrow> nat \<Rightarrow> error + int"
  ParseUint :: "string \<Rightarrow> nat \<Rightarrow> nat \<Rightarrow> error + nat"
  ParseFloat :: "string \<Rightarrow> nat \<Rightarrow> error + 'x"

fun bits :: "width \<Rightarrow> nat" where
  "bits W0 = 64"
| "bits W8 = 8"
| "bits W16 = 16"
| "bits W32 = 32"
| "bits W64 = 64"

fun fbits :: "fwidth \<Rightarrow> nat" where
  "fbits F32 = 32"
| "fbits F64 = 64"

text \<open>
  \<open>reflect\<close>'s setters keep the type of the field. The value handed to \<open>Report\<close> is the
  parsed \<open>uint64\<close>, \<open>int64\<close>, \<open>float64\<close> or \<open>complex128\<close>.
\<close>

definition SetUint :: "'x field \<Rightarrow> nat \<Rightarrow> 'x field" where
  "SetUint field u = (case Value field of VUint w _ \<Rightarrow> field\<lparr>Value := VUint w u\<rparr> | _ \<Rightarrow> field)"

definition SetInt :: "'x field \<Rightarrow> int \<Rightarrow> 'x field" where
  "SetInt field i = (case Value field of VInt w _ \<Rightarrow> field\<lparr>Value := VInt w i\<rparr> | _ \<Rightarrow> field)"

definition SetFloat :: "'x field \<Rightarrow> 'x \<Rightarrow> 'x field" where
  "SetFloat field f = (case Value field of VFloat w _ \<Rightarrow> field\<lparr>Value := VFloat w f\<rparr> | _ \<Rightarrow> field)"

definition SetComplex :: "'x field \<Rightarrow> 'x \<Rightarrow> 'x \<Rightarrow> 'x field" where
  "SetComplex field re im =
     (case Value field of VComplex w _ _ \<Rightarrow> field\<lparr>Value := VComplex w re im\<rparr> | _ \<Rightarrow> field)"

definition setUint ::
  "'x strconv \<Rightarrow> 'x reporter \<Rightarrow> 'x field \<Rightarrow> string \<Rightarrow> nat \<Rightarrow> string \<Rightarrow> outcome \<times> 'x field \<times> 'x event list" where
  "setUint P r field s n fieldKey =
     (case ParseUint P s 0 n of
        Inl err \<Rightarrow> (Err err, field, [])
      | Inr u \<Rightarrow>
          (let field' = SetUint field u
           in (Ok, field', Stored (Name field) (Value field') # r fieldKey (VUint W64 u))))"

definition setInt ::
  "'x strconv \<Rightarrow> 'x reporter \<Rightarrow> 'x field \<Rightarrow> string \<Rightarrow> nat \<Rightarrow> string \<Rightarrow> outcome \<times> 'x field \<times> 'x event list" where
  "setInt P r field s n fieldKey =
     (case ParseInt P s 0 n of
        Inl err \<Rightarrow> (Err err, field, [])
      | Inr i \<Rightarrow>
          (let field' = SetInt field i
           in (Ok, field', Stored (Name field) (Value field') # r fieldKey (VInt W64 i))))"

definition setFloat ::
  "'x strconv \<Rightarrow> 'x reporter \<Rightarrow> 'x field \<Rightarrow> string \<Rightarrow> nat \<Rightarrow> string \<Rightarrow> outcome \<times> 'x field \<times> 'x event list" where
  "setFloat P r field s n fieldKey =
     (case ParseFloat P s n of
        Inl err \<Rightarrow> (Err err, field, [])
      | Inr f \<Rightarrow>
          (let field' = SetFloat field f
           in (Ok, field', Stored (Name field) (Value field') # r fieldKey (VFloat F64 f))))"

text \<open>
  \<open>setComplex\<close> (lines 618-631). \<open>strings.Split(s, ",")[:2]\<close> slices a slice whose capacity
  is the number of pieces: with fewer than two pieces the slice expression panics.
\<close>

definition slice_bounds_panic :: string where
  "slice_bounds_panic = ''runtime error: slice bounds out of range''"

definition setComplex ::
  "'x strconv \<Rightarrow> 'x reporter \<Rightarrow> 'x field \<Rightarrow> string \<Rightarrow> nat \<Rightarrow> string \<Rightarrow> outcome \<times> 'x field \<times> 'x event list" where
  "setComplex P r field s n fieldKey =
     (case strings_Split s of
        q0 # q1 # qs \<Rightarrow>
          (case ParseFloat P q0 n of
             Inl err \<Rightarrow> (Err err, field, [])
           | Inr re \<Rightarrow>
               (case ParseFloat P q1 n of
                  Inl err \<Rightarrow> (Err err, field, [])
                | Inr im \<Rightarrow>
                    (let field' = SetComplex field re im
                     in (Ok, field', Stored (Name field) (Value field') # r fieldKey (VComplex F64 re im)))))
      | _ \<Rightarrow> (Panic slice_bounds_panic, field, []))"

text \<open>
  The tag of lines 498-512: only \<open>lookup\<close> is read; \<open>None\<close> is the \<open>continue\<close>.
\<close>

definition lookupTag :: "(string \<times> string) list \<Rightarrow> (string \<times> bool) option" where
  "lookupTag tag =
     (case map_of tag ''lookup'' of
        None \<Rightarrow> None
      | Some s \<Rightarrow>
          if s \<noteq> [] then
            Some (case strings_Split s of
                    [p] \<Rightarrow> (s, False)
                  | p0 # p1 # ps \<Rightarrow> (p0, p1 = ''optional'')
                  | [] \<Rightarrow> ([], False))
          else None)"

text \<open>
  Lines 518-577: the switch on the type of the field. The \<open>bool\<close> case returns its own
  error; the \<open>[]byte\<close> case is the one of lines 353-358 again; a type with no case is
  left alone without error and without report.
\<close>

definition coerce_typed ::
  "'x strconv \<Rightarrow> 'x reporter \<Rightarrow> 'x field \<Rightarrow> string \<Rightarrow> string \<Rightarrow> outcome \<times> 'x field \<times> 'x event list" where
  "coerce_typed P r field v fieldKey =
     (if \<not> Exported field then (Panic unexported_panic, field, [])
      else case kind_of (Value field) of
        TBool \<Rightarrow>
          (case ParseBool v of
             Inl err \<Rightarrow> (Err (WrongType v (Name field) TBool err), field, [])
           | Inr b \<Rightarrow> (Ok, field\<lparr>Value := VBool b\<rparr>, Stored (Name field) (VBool b) # r fieldKey (VBool b)))
      | k \<Rightarrow>
          (case (case k of
                   TString \<Rightarrow>
                     (Ok, field\<lparr>Value := VString v\<rparr>, Stored (Name field) (VString v) # r fieldKey (VString v))
                 | TInt w \<Rightarrow> setInt P r field v (bits w) fieldKey
                 | TUint w \<Rightarrow> setUint P r field v (bits w) fieldKey
                 | TFloat w \<Rightarrow> setFloat P r field v (fbits w) fieldKey
                 | TComplex w \<Rightarrow> setComplex P r field v (fbits w) fieldKey
                 | TBytes \<Rightarrow>
                     (case DecodeString v of
                        (b, Some err) \<Rightarrow>
                          (Ok, field\<lparr>Value := VBytes b\<rparr>,
                           Stored (Name field) (VBytes b) # r fieldKey (VBytes b))
                      | (b, None) \<Rightarrow> (Ok, field, r fieldKey (VBytes b)))
                 | _ \<Rightarrow> (Ok, field, []))
           of (out, field', evs) \<Rightarrow>
             (case out of
                Err e \<Rightarrow> (Err (WrongType v (Name field) k e), field', evs)
              | _ \<Rightarrow> (out, field', evs))))"

definition Lookup_typed_field ::
  "'x strconv \<Rightarrow> 'x reporter \<Rightarrow> 's looker \<Rightarrow> 'x field \<Rightarrow> 's \<Rightarrow> outcome \<times> 'x field \<times> 'x event list \<times> 's" where
  "Lookup_typed_field P r l field st =
     (case lookupTag (Tag field) of
        None \<Rightarrow> (Ok, field, [], st)
      | Some (fieldKey, optional) \<Rightarrow>
          (case l fieldKey st of ((v, ok, err), st') \<Rightarrow>
            (case err of
               Some e \<Rightarrow> (Err (LookupFailed (Name field) e), field, [], st')
             | None \<Rightarrow>
                 if ok then
                   (case coerce_typed P r field v fieldKey of
                      (out, field', evs) \<Rightarrow> (out, field', evs, st'))
                 else if \<not> optional then (Err (MissingValue (Name field)), field, [], st')
                 else (Ok, field, r fieldKey (VString v), st'))))"

definition Lookup_typed ::
  "'x strconv \<Rightarrow> 'x target \<Rightarrow> 's looker \<Rightarrow> 'x reporter option \<Rightarrow> 's \<Rightarrow>
     outcome \<times> 'x target \<times> 'x event list \<times> 's" where
  "Lookup_typed P e l r st = run_pass (Lookup_typed_field P (reporter_or_discard r) l) e st"

subsection \<open>Standard library: fmt.Sscanln into a bool\<close>

text \<open>
  \<open>fmt.Sscanln(str, &b)\<close> for a \<open>bool\<close>, after \<open>fmt/scan.go\<close>. The scanner reads runes:
  \<open>runes\<close> decodes the bytes of the string as \<open>utf8.DecodeRuneInString\<close> does, an invalid
  byte giving \<open>RuneError\<close> and counting for one. \<open>isSpace\<close> is the table \<open>space\<close> of the
  package.
\<close>

definition RuneError :: nat where
  "RuneError = 65533"

definition DecodeRuneInString :: "string \<Rightarrow> nat \<times> nat" where
  "DecodeRuneInString str =
     (case str of
        [] \<Rightarrow> (RuneError, 0)
      | c # s \<Rightarrow>
          (let s0 = (of_char c :: nat) in
           if s0 < 128 then (s0, 1)
           else if s0 < 194 \<or> 244 < s0 then (RuneError, 1)
           else
             (let sz = (if s0 < 224 then 2 else if s0 < 240 then 3 else 4 :: nat);
                  lo = (if s0 = 224 then 160 else if s0 = 240 then 144 else 128 :: nat);
                  hi = (if s0 = 237 then 159 else if s0 = 244 then 143 else 191 :: nat)
              in if Suc (length s) < sz then (RuneError, 1)
                 else
                   (let s1 = (of_char (s ! 0) :: nat) in
                    if s1 < lo \<or> hi < s1 then (RuneError, 1)
                    else if sz \<le> 2 then (s0 mod 32 * 64 + s1 mod 64, 2)
                    else
                      (let s2 = (of_char (s ! 1) :: nat) in
                       if s2 < 128 \<or> 191 < s2 then (RuneError, 1)
                       else if sz \<le> 3 then (s0 mod 16 * 4096 + s1 mod 64 * 64 + s2 mod 64, 3)
                       else
                         (let s3 = (of_char (s ! 2) :: nat) in
                          if s3 < 128 \<or> 191 < s3 then (RuneError, 1)
                          else (s0 mod 8 * 262144 + s1 mod 64 * 4096 + s2 mod 64 * 64 + s3 mod 64,
                                4)))))))"

text \<open>\<open>runes_from k s\<close>: the runes of \<open>s\<close> after the \<open>k\<close> bytes that belong to the rune before.\<close>

fun runes_from :: "nat \<Rightarrow> string \<Rightarrow> nat list" where
  "runes_from k [] = []"
| "runes_from k (c # s) =
     (if k = 0 then (case DecodeRuneInString (c # s) of (r, n) \<Rightarrow> r # runes_from (n - 1) s)
      else runes_from (k - 1) s)"

definition runes :: "string \<Rightarrow> nat list" where
  "runes s = runes_from 0 s"

definition isSpace :: "nat \<Rightarrow> bool" where
  "isSpace r =
     ((9 \<le> r \<and> r \<le> 13) \<or> r = 32 \<or> r = 133 \<or> r = 160 \<or> r = 5760 \<or>
      (8192 \<le> r \<and> r \<le> 8202) \<or> r = 8232 \<or> r = 8233 \<or> r = 8239 \<or> r = 8287 \<or> r = 12288)"

text \<open>
  \<open>SkipSpace\<close> with \<open>nlIsSpace = false\<close>: spaces are dropped (\<open>\r\<close> is one of them), a
  newline is the error "unexpected newline", any other rune is put back.
\<close>

fun SkipSpace :: "nat list \<Rightarrow> error + nat list" where
  "SkipSpace [] = Inr []"
| "SkipSpace (r # rs) =
     (if r = 10 then Inl (Message ''unexpected newline'')
      else if isSpace r then SkipSpace rs
      else Inr (r # rs))"

text \<open>\<open>accept\<close>: the next rune is consumed if it is one of \<open>ok\<close>, and put back otherwise.\<close>

definition accept :: "string \<Rightarrow> nat list \<Rightarrow> bool \<times> nat list" where
  "accept ok rs =
     (case rs of
        [] \<Rightarrow> (False, [])
      | r # rs' \<Rightarrow> if r \<in> of_char ` set ok then (True, rs') else (False, rs))"

definition boolError :: error where
  "boolError = Message ''syntax error scanning boolean''"

text \<open>
  \<open>scanBool\<close>: after the spaces, \<open>0\<close> and \<open>1\<close>, \<open>t\<close> or \<open>T\<close> alone or followed by \<open>rue\<close> in any
  case, \<open>f\<close> or \<open>F\<close> alone or followed by \<open>alse\<close> in any case; a started word that is not
  finished is the syntax error; any other first rune is consumed and read as false. The
  end of the input (\<open>notEOF\<close>) is not met on a text that ends in a newline.
\<close>

definition scanBool :: "nat list \<Rightarrow> error + bool \<times> nat list" where
  "scanBool inp =
     (case SkipSpace inp of
        Inl e \<Rightarrow> Inl e
      | Inr [] \<Rightarrow> Inl (Message ''EOF'')
      | Inr (r # rs) \<Rightarrow>
          if r = of_char CHR ''0'' then Inr (False, rs)
          else if r = of_char CHR ''1'' then Inr (True, rs)
          else if r = of_char CHR ''t'' \<or> r = of_char CHR ''T'' then
            (case accept ''rR'' rs of
               (False, rs1) \<Rightarrow> Inr (True, rs1)
             | (True, rs1) \<Rightarrow>
                 (case accept ''uU'' rs1 of
                    (False, rs2) \<Rightarrow> Inl boolError
                  | (True, rs2) \<Rightarrow>
                      (case accept ''eE'' rs2 of
                         (False, rs3) \<Rightarrow> Inl boolError
                       | (True, rs3) \<Rightarrow> Inr (True, rs3))))
          else if r = of_char CHR ''f'' \<or> r = of_char CHR ''F'' then
            (case accept ''aA'' rs of
               (False, rs1) \<Rightarrow> Inr (False, rs1)
             | (True, rs1) \<Rightarrow>
                 (case accept ''lL'' rs1 of
                    (False, rs2) \<Rightarrow> Inl boolError
                  | (True, rs2) \<Rightarrow>
                      (case accept ''sS'' rs2 of
                         (False, rs3) \<Rightarrow> Inl boolError
                       | (True, rs3) \<Rightarrow>
                           (case accept ''eE'' rs3 of
                              (False, rs4) \<Rightarrow> Inl boolError
                            | (True, rs4) \<Rightarrow> Inr (False, rs4)))))
          else Inr (False, rs))"

text \<open>The end of \<open>doScan\<close> for \<open>Scanln\<close>: only spaces may stand before the newline.\<close>

fun expect_newline :: "nat list \<Rightarrow> error option" where
  "expect_newline [] = None"
| "expect_newline (r # rs) =
     (if r = 10 then None
      else if isSpace r then expect_newline rs
      else Some (Message ''expected newline''))"

text \<open>
  The count, the error, and the boolean stored through the pointer, if one was: an error
  of \<open>scanBool\<close> leaves the count at 0 and stores nothing, an error at the end comes
  after the store.
\<close>

definition Sscanln_bool :: "string \<Rightarrow> nat \<times> error option \<times> bool option" where
  "Sscanln_bool str =
     (case scanBool (runes str) of
        Inl e \<Rightarrow> (0, Some e, None)
      | Inr (b, rest) \<Rightarrow> (1, expect_newline rest, Some b))"

text \<open>\<open>fmt.Sscanln\<close> as a scanner: a \<open>bool\<close> as above, every other type left to \<open>other\<close>.\<close>

definition fmt_Sscanln :: "'x scanner \<Rightarrow> 'x scanner" where
  "fmt_Sscanln other str x =
     (case x of
        VBool b \<Rightarrow>
          (case Sscanln_bool str of
             (n, err, None) \<Rightarrow> (n, err, VBool b)
           | (n, err, Some b') \<Rightarrow> (n, err, VBool b'))
      | _ \<Rightarrow> other str x)"

text \<open>
  The spellings of a lower-case word that differ in the case of its letters only; an ASCII
  letter becomes upper case by clearing the bit of value 32.
\<close>

definition toUpper :: "char \<Rightarrow> char" where
  "toUpper c =
     (if 97 \<le> (of_char c :: nat) \<and> (of_char c :: nat) \<le> 122
      then Char (digit0 c) (digit1 c) (digit2 c) (digit3 c) (digit4 c) False (digit6 c) (digit7 c)
      else c)"

fun letter_cases :: "string \<Rightarrow> string list" where
  "letter_cases [] = [[]]"
| "letter_cases (c # cs) = concat (map (\<lambda>w. [c # w, toUpper c # w]) (letter_cases cs))"

subsection \<open>An example record and its sources\<close>

text \<open>
  Data in the manner of \<open>TestLookup\<close>: the environment is the state of the sources, \<open>Env\<close>
  reads it through \<open>NoError\<close>, and \<open>example_Sscanln\<close> stands for \<open>fmt.Sscanln\<close> on the
  two texts the examples scan.
\<close>

definition os_LookupEnv :: "string \<Rightarrow> (string \<rightharpoonup> string) \<Rightarrow> (string \<times> bool) \<times> (string \<rightharpoonup> string)" where
  "os_LookupEnv k env = (case env k of Some v \<Rightarrow> ((v, True), env) | None \<Rightarrow> (([], False), env))"

definition Env :: "(string \<rightharpoonup> string) looker" where
  "Env = NoError_LookupKey os_LookupEnv"

definition example_Sscanln :: "unit scanner" where
  "example_Sscanln s x =
     (if s = ''2'' @ [CHR 0x0A] \<and> kind_of x = TInt W0 then (1, None, VInt W0 2)
      else if s = ''f'' @ [CHR 0x0A] \<and> kind_of x = TBool then (1, None, VBool False)
      else (0, Some (Message ''expected newline''), x))"

definition field_B :: "unit field" where
  "field_B = \<lparr>Name = ''B'', Tag = [(''lookup'', ''B'')], Exported = True, Value = VInt W0 0\<rparr>"

definition field_D :: "unit field" where
  "field_D = \<lparr>Name = ''D'', Tag = [(''lookup'', ''D'')], Exported = True, Value = VString []\<rparr>"

definition field_E :: "unit field" where
  "field_E = \<lparr>Name = ''E'', Tag = [(''json'', ''E1'')], Exported = True, Value = VString []\<rparr>"

definition field_A :: "unit field" where
  "field_A = \<lparr>Name = ''A'', Tag = [(''lookup'', ''A,optional'')], Exported = True, Value = VBool False\<rparr>"

text \<open>A function that answers every key with a value and no error, to be wrapped in \<open>NoBool\<close>.\<close>

definition fixed_port :: "string \<Rightarrow> 's \<Rightarrow> (string \<times> error option) \<times> 's" where
  "fixed_port k st = ((''8080'', None), st)"

text \<open>A field that carries both tags, with different keys.\<close>

definition field_both :: "unit field" where
  "field_both = \<lparr>Name = ''Port'', Tag = [(''json'', ''port,omitempty''), (''lookup'', ''PORT'')],
     Exported = True, Value = VString []\<rparr>"

text \<open>
  Stands for \<open>strconv\<close> on the numbers the examples parse; the floating-point numbers of
  the examples are integers.
\<close>

definition example_strconv :: "int strconv" where
  "example_strconv =
     \<lparr>ParseInt = (\<lambda>s b n. if s = ''2'' then Inr 2 else Inl (NumError ''ParseInt'' s)),
      ParseUint = (\<lambda>s b n. if s = ''2'' then Inr 2 else Inl (NumError ''ParseUint'' s)),
      ParseFloat = (\<lambda>s n. if s = ''3'' then Inr 3 else if s = ''4'' then Inr 4
                          else Inl (NumError ''ParseFloat'' s))\<rparr>"

definition field_Z :: "int field" where
  "field_Z = \<lparr>Name = ''Z'', Tag = [(''lookup'', ''Z'')], Exported = True, Value = VComplex F64 0 0\<rparr>"

definition field_T :: "int field" where
  "field_T = \<lparr>Name = ''T'', Tag = [(''lookup'', ''T'')], Exported = True, Value = VBool False\<rparr>"

text \<open>A \<open>[]byte\<close> field that holds one byte before the pass.\<close>

definition field_K :: "'x field" where
  "field_K = \<lparr>Name = ''K'', Tag = [(''lookup'', ''K'')], Exported = True, Value = VBytes [9]\<rparr>"

text \<open>A \<open>Map\<close> source that counts in the state how often it has been called.\<close>

definition counting_Map :: "(string \<rightharpoonup> string) \<Rightarrow> nat looker" where
  "counting_Map m s n = (fst (Map_LookupKey m s n), Suc n)"

text \<open>
  Fields whose tag names no key: \<open>json:",string"\<close>, not optional, and \<open>json:",omitempty"\<close>,
  optional.
\<close>

definition field_S :: "unit field" where
  "field_S = \<lparr>Name = ''S'', Tag = [(''json'', '',string'')], Exported = True, Value = VString []\<rparr>"

definition field_O :: "unit field" where
  "field_O = \<lparr>Name = ''O'', Tag = [(''json'', '',omitempty'')], Exported = True, Value = VString []\<rparr>"

text \<open>A \<open>Looker\<close> of the caller's own that answers a miss with a text.\<close>

definition miss_with_text :: "'s looker" where
  "miss_with_text k st = ((''x'', False, None), st)"

text \<open>A boolean field that is not exported, and a scanner that knows no type.\<close>

definition field_u :: "'x field" where
  "field_u = \<lparr>Name = ''u'', Tag = [(''lookup'', ''U'')], Exported = False, Value = VBool False\<rparr>"

definition unsupported :: "'x scanner" where
  "unsupported str x = (0, Some (Message ''unsupported type''), x)"

section \<open>Properties\<close>

subsection \<open>The sequence resolver\<close>

lemma call_all_Nil_iff: "call_all s l st = [] \<longleftrightarrow> l = []"
  by (cases l) (auto split: prod.splits)

lemma lookupKey_from_spec:
  "lookupKey_from s r l st =
     (case find (\<lambda>c. accepted (fst c)) (call_all s l st) of
        Some c \<Rightarrow> c
      | None \<Rightarrow> if l = [] then (r, st) else last (call_all s l st))"
proof (induction l arbitrary: r st)
  case Nil
  show ?case by simp
next
  case (Cons e l)
  obtain r' st' where e: "e s st = (r', st')" by (cases "e s st")
  show ?case
  proof (cases "accepted r'")
    case True
    with e show ?thesis by simp
  next
    case False
    with e Cons.IH [of r' st'] show ?thesis
      by (cases l) (auto split: option.splits prod.splits simp: call_all_Nil_iff)
  qed
qed

text \<open>
  C1. For every key and every list of sources, \<open>lookupKey\<close> and \<open>Seq.LookupKey\<close> call the
  sources in list order and return the reply of the first source that answers
  \<open>found = true\<close> with a nil error (leaving the later sources uncalled); when no source
  does, they return the last source's reply as it is, and \<open>("", false, nil)\<close> for the empty
  list.
\<close>

theorem lookupKey_first_accepted_or_last:
  "lookupKey s l st = resolve_spec s l st \<and> Seq_LookupKey l s st = resolve_spec s l st"
  by (simp add: lookupKey_def Seq_LookupKey_def resolve_spec_def lookupKey_from_spec)

subsection \<open>The NoBool adapter\<close>

lemma lookupKey_from_NoBool:
  "\<not> accepted r \<Longrightarrow> \<not> accepted (fst (lookupKey_from s r (map NoBool_LookupKey Fs) st))"
proof (induction Fs arbitrary: r st)
  case Nil
  then show ?case by simp
next
  case (Cons F Fs)
  obtain v err st' where F: "F s st = ((v, err), st')"
    by (metis surj_pair)
  have "\<not> accepted (v, err \<noteq> None, err)" by (cases err) simp_all
  from Cons.IH [OF this, of st'] F show ?case
    by (simp add: NoBool_LookupKey_def)
qed

text \<open>
  C10. \<open>NoBool{F}.LookupKey(k)\<close> returns \<open>found\<close> equal to \<open>err != nil\<close>:
  \<open>(value, false, nil)\<close> when \<open>F\<close> succeeds and \<open>(value, true, err)\<close> when it fails. Such a
  reply never passes the resolver's test \<open>err == nil && b\<close>, so a sequence made of
  \<open>NoBool\<close> sources only never returns an accepted reply.
\<close>

theorem NoBool_found_is_failure:
  "NoBool_LookupKey F k st =
     (case F k st of
        ((v, None), st') \<Rightarrow> ((v, False, None), st')
      | ((v, Some e), st') \<Rightarrow> ((v, True, Some e), st'))
   \<and> fst (snd (fst (NoBool_LookupKey F k st))) = (snd (snd (fst (NoBool_LookupKey F k st))) \<noteq> None)
   \<and> \<not> accepted (fst (NoBool_LookupKey F k st))
   \<and> \<not> accepted (fst (lookupKey k (map NoBool_LookupKey Fs) st))"
proof -
  have "\<not> accepted ('''', False, None)" by simp
  from lookupKey_from_NoBool [OF this]
  have "\<not> accepted (fst (lookupKey k (map NoBool_LookupKey Fs) st))"
    by (simp add: lookupKey_def)
  then show ?thesis
    by (auto simp: NoBool_LookupKey_def split: prod.splits option.splits)
qed

subsection \<open>The pass over the fields\<close>

lemma Lookup_loop_append:
  "Lookup_loop body (pre @ rest) st =
     (case Lookup_loop body pre st of (out, pre', evs, st1) \<Rightarrow>
        (case out of
           Ok \<Rightarrow> (case Lookup_loop body rest st1 of
                    (out', rest', evs', st2) \<Rightarrow> (out', pre' @ rest', evs @ evs', st2))
         | _ \<Rightarrow> (out, pre' @ rest, evs, st1)))"
proof (induction pre arbitrary: st)
  case Nil
  show ?case by (simp split: prod.splits outcome.splits)
next
  case (Cons f pre)
  obtain out f' evs st' where b: "body f st = (out, f', evs, st')"
    by (metis prod_cases4)
  show ?case
  proof (cases out)
    case Ok
    with b Cons.IH [of st'] show ?thesis
      by (simp split: prod.splits outcome.splits)
  qed (use b in simp_all)
qed

lemma Lookup_loop_reaches:
  assumes "Lookup_loop body pre st = (Ok, pre', evs, st1)"
  shows "Lookup_loop body (pre @ f # post) st =
     (case body f st1 of (out, f', evs1, st2) \<Rightarrow>
        (case out of
           Ok \<Rightarrow> (case Lookup_loop body post st2 of
                    (out', post', evs2, st3) \<Rightarrow> (out', pre' @ f' # post', evs @ evs1 @ evs2, st3))
         | _ \<Rightarrow> (out, pre' @ f' # post, evs @ evs1, st2)))"
  using assms by (simp add: Lookup_loop_append split: prod.splits outcome.splits)

lemma Lookup_field_missing:
  "findTag (Tag f) = (key, False) \<Longrightarrow> key \<noteq> notFound \<Longrightarrow>
   lookupKey key seq st = ((v, False, None), st') \<Longrightarrow>
   Lookup_field scan r seq f st = (Err (MissingValue (Name f)), f, [], st')"
  by (simp add: Lookup_field_def)

lemma Lookup_inline_field_missing:
  "scanTags lookupTags (Tag f) (Name f, False, False) = (key, False, True) \<Longrightarrow>
   lookupKey key seq st = ((v, False, None), st') \<Longrightarrow>
   Lookup_inline_field scan r seq f st = (Err (MissingValue (Name f)), f, [], st')"
  by (simp add: Lookup_inline_field_def)

lemma Lookup_field_no_key:
  "findTag (Tag g) = (notFound, opt) \<Longrightarrow> Lookup_field scan r seq g st = (Ok, g, [], st)"
  by (simp add: Lookup_field_def)

text \<open>
  C3, as the code has it. When the pass reaches a field that is not marked optional and
  whose key no source supplies (\<open>found = false\<close> with a nil error), \<open>Lookup\<close> returns the
  error "missing value for required field" naming that field; the field and the fields
  after it are as they were and leave no event; the fields before it keep the values the
  pass gave them and their events. The pass reaches the field when no earlier field has
  ended it: if one has, the outcome is that field's and nothing behind it is touched. In
  \<open>Lookup\<close> (lines 103-142) the key must not be empty: a field whose tag gives the empty key
  is skipped there (lines 120-123), without error. Stated for \<open>Lookup\<close> and for
  \<open>Lookup_inline\<close> (lines 299-387).
\<close>

theorem missing_required_field_aborts:
  "(Lookup_loop (Lookup_field scan (reporter_or_discard r) seq) pre st = (Ok, pre', evs, st1) \<and>
    findTag (Tag f) = (key, False) \<and> key \<noteq> notFound \<and>
    lookupKey key seq st1 = ((v, False, None), st2)
    \<longrightarrow> Lookup scan (PtrStruct (pre @ f # post)) r seq st =
          (Err (MissingValue (Name f)), PtrStruct (pre' @ f # post), evs, st2))
   \<and>
   (Lookup_loop (Lookup_inline_field scan (reporter_or_discard r) seq) pre st = (Ok, pre', evs, st1) \<and>
    scanTags lookupTags (Tag f) (Name f, False, False) = (key, False, True) \<and>
    lookupKey key seq st1 = ((v, False, None), st2)
    \<longrightarrow> Lookup_inline scan (PtrStruct (pre @ f # post)) r seq st =
          (Err (MissingValue (Name f)), PtrStruct (pre' @ f # post), evs, st2))
   \<and>
   (findTag (Tag g) = (notFound, opt)
    \<longrightarrow> Lookup_field scan (reporter_or_discard r) seq g st = (Ok, g, [], st))
   \<and>
   (Lookup_loop body pre st = (out, pre', evs, st1) \<and> out \<noteq> Ok
    \<longrightarrow> Lookup_loop body (pre @ f # post) st = (out, pre' @ f # post, evs, st1))"
proof -
  have "Lookup_loop body (pre @ f # post) st = (out, pre' @ f # post, evs, st1)"
    if "Lookup_loop body pre st = (out, pre', evs, st1)" "out \<noteq> Ok"
    using that by (cases out) (simp_all add: Lookup_loop_append)
  then show ?thesis
    by (auto simp: Lookup_def Lookup_inline_def run_pass_def Lookup_loop_reaches
        Lookup_field_missing Lookup_inline_field_missing Lookup_field_no_key)
qed

lemmas pass_defs = Lookup_field_def Lookup_inline_field_def findTag_def lookupTags_def notFound_def
  lookupKey_def Env_def NoError_LookupKey_def os_LookupEnv_def Map_LookupKey_def setField_def
  coerce_inline_def CanAddr_def example_Sscanln_def reporter_or_discard_def recorder_def discard_def
  field_B_def field_D_def field_E_def

lemmas pass_defs2 = pass_defs field_A_def field_S_def field_O_def miss_with_text_def

theorem missing_required_field_aborts_witness:
  "Lookup example_Sscanln (PtrStruct [field_B, field_D, field_E]) (Some recorder)
      [Env, Map_LookupKey [''C'' \<mapsto> ''-4'']] [''B'' \<mapsto> ''2'']
     = (Err (MissingValue ''D''), PtrStruct [field_B\<lparr>Value := VInt W0 2\<rparr>, field_D, field_E],
        [Stored ''B'' (VInt W0 2), Reported ''B'' (VInt W0 2)], [''B'' \<mapsto> ''2''])
   \<and> Lookup_inline example_Sscanln (PtrStruct [field_B, field_D, field_E]) (Some recorder)
      [Env, Map_LookupKey [''C'' \<mapsto> ''-4'']] [''B'' \<mapsto> ''2'']
     = (Err (MissingValue ''D''), PtrStruct [field_B\<lparr>Value := VInt W0 2\<rparr>, field_D, field_E],
        [Stored ''B'' (VInt W0 2), Reported ''B'' (VString ''2'')], [''B'' \<mapsto> ''2''])
   \<and> Lookup_field example_Sscanln (reporter_or_discard (Some recorder))
        [Env, Map_LookupKey [''C'' \<mapsto> ''-4'']] field_S [''B'' \<mapsto> ''2'']
     = (Ok, field_S, [], [''B'' \<mapsto> ''2''])
   \<and> Lookup_loop (Lookup_field example_Sscanln recorder [Env, Map_LookupKey [''C'' \<mapsto> ''-4'']])
        ([field_D] @ field_E # [field_B]) [''B'' \<mapsto> ''2'']
     = (Err (MissingValue ''D''), [field_D] @ field_E # [field_B], [], [''B'' \<mapsto> ''2''])"
proof -
  let ?seq = "[Env, Map_LookupKey [''C'' \<mapsto> ''-4'']]"
  let ?st = "[''B'' \<mapsto> ''2'']"
  have early: "Lookup_loop (Lookup_field example_Sscanln recorder ?seq) [field_D] ?st
      = (Err (MissingValue ''D''), [field_D], [], ?st) \<and> Err (MissingValue ''D'') \<noteq> Ok"
    by (simp add: pass_defs)
  have pre1: "Lookup_loop (Lookup_field example_Sscanln (reporter_or_discard (Some recorder)) ?seq) [field_B] ?st
      = (Ok, [field_B\<lparr>Value := VInt W0 2\<rparr>], [Stored ''B'' (VInt W0 2), Reported ''B'' (VInt W0 2)], ?st)"
    by (simp add: pass_defs)
  have pre2: "Lookup_loop (Lookup_inline_field example_Sscanln (reporter_or_discard (Some recorder)) ?seq) [field_B] ?st
      = (Ok, [field_B\<lparr>Value := VInt W0 2\<rparr>], [Stored ''B'' (VInt W0 2), Reported ''B'' (VString ''2'')], ?st)"
    by (simp add: pass_defs)
  have tag1: "findTag (Tag field_D) = (''D'', False) \<and> ''D'' \<noteq> notFound"
    by (simp add: pass_defs)
  have tag2: "scanTags lookupTags (Tag field_D) (Name field_D, False, False) = (''D'', False, True)"
    by (simp add: pass_defs)
  have tag3: "findTag (Tag field_S) = (notFound, False)"
    by (simp add: pass_defs2)
  have look: "lookupKey ''D'' ?seq ?st = (([], False, None), ?st)"
    by (simp add: pass_defs)
  from missing_required_field_aborts
    [where scan = example_Sscanln and r = "Some recorder" and seq = ?seq and pre = "[field_B]"
       and st = ?st and ?st1.0 = ?st and f = field_D and key = "''D''" and v = "[]" and ?st2.0 = ?st
       and post = "[field_E]" and g = field_S and opt = False]
    pre1 pre2 tag1 tag2 tag3 look
  have main: "Lookup example_Sscanln (PtrStruct [field_B, field_D, field_E]) (Some recorder) ?seq ?st
     = (Err (MissingValue ''D''), PtrStruct [field_B\<lparr>Value := VInt W0 2\<rparr>, field_D, field_E],
        [Stored ''B'' (VInt W0 2), Reported ''B'' (VInt W0 2)], ?st)
   \<and> Lookup_inline example_Sscanln (PtrStruct [field_B, field_D, field_E]) (Some recorder) ?seq ?st
     = (Err (MissingValue ''D''), PtrStruct [field_B\<lparr>Value := VInt W0 2\<rparr>, field_D, field_E],
        [Stored ''B'' (VInt W0 2), Reported ''B'' (VString ''2'')], ?st)
   \<and> Lookup_field example_Sscanln (reporter_or_discard (Some recorder)) ?seq field_S ?st
     = (Ok, field_S, [], ?st)"
    by (simp add: field_D_def)
  from missing_required_field_aborts
    [where body = "Lookup_field example_Sscanln recorder ?seq" and pre = "[field_D]" and st = ?st
       and out = "Err (MissingValue ''D'')" and pre' = "[field_D]" and evs = "[]" and ?st1.0 = ?st
       and f = field_E and post = "[field_B]"]
    early
  have "Lookup_loop (Lookup_field example_Sscanln recorder ?seq) ([field_D] @ field_E # [field_B]) ?st
     = (Err (MissingValue ''D''), [field_D] @ field_E # [field_B], [], ?st)"
    by blast
  with main show ?thesis by blast
qed

text \<open>
  A required field without a key is not an error, and the error names the first missing
  field only: \<open>S\<close>, tagged \<open>json:",string"\<close>, is skipped by \<open>Lookup\<close>; of \<open>D\<close> and \<open>E\<close>, both
  required and both missing, \<open>D\<close> is named.
\<close>

theorem missing_required_field_counterexample:
  "findTag (Tag field_S) = ([], False)
   \<and> lookupKey [] [Map_LookupKey Map.empty] () = (([], False, None), ())
   \<and> Lookup example_Sscanln (PtrStruct [field_S]) (Some recorder) [Map_LookupKey Map.empty] ()
       = (Ok, PtrStruct [field_S], [], ())
   \<and> findTag (Tag field_E) = (''E1'', False)
   \<and> lookupKey ''E1'' [Map_LookupKey Map.empty] () = (([], False, None), ())
   \<and> Lookup example_Sscanln (PtrStruct [field_D, field_E]) (Some recorder) [Map_LookupKey Map.empty] ()
       = (Err (MissingValue ''D''), PtrStruct [field_D, field_E], [], ())
   \<and> Lookup_inline example_Sscanln (PtrStruct [field_D, field_E]) (Some recorder) [Map_LookupKey Map.empty] ()
       = (Err (MissingValue ''D''), PtrStruct [field_D, field_E], [], ())
   \<and> MissingValue ''D'' \<noteq> MissingValue ''E''"
  by (simp add: Lookup_def Lookup_inline_def run_pass_def pass_defs2)

lemma Lookup_field_optional:
  "findTag (Tag f) = (key, True) \<Longrightarrow> key \<noteq> notFound \<Longrightarrow>
   lookupKey key seq st = ((v, False, None), st') \<Longrightarrow>
   Lookup_field scan r seq f st = (Ok, f, r key (VString v), st')"
  by (simp add: Lookup_field_def)

lemma Lookup_inline_field_optional:
  "scanTags lookupTags (Tag f) (Name f, False, False) = (key, True, True) \<Longrightarrow>
   lookupKey key seq st = ((v, False, None), st') \<Longrightarrow>
   Lookup_inline_field scan r seq f st = (Ok, f, r key (VString v), st')"
  by (simp add: Lookup_inline_field_def)

lemma lookupKey_from_snoc:
  "\<not> accepted r \<Longrightarrow>
   lookupKey_from s r (l @ [e]) st =
     (case lookupKey_from s r l st of (r', st') \<Rightarrow> if accepted r' then (r', st') else e s st')"
proof (induction l arbitrary: r st)
  case Nil
  then show ?case by (simp split: prod.splits)
next
  case (Cons a l)
  obtain r' st' where a: "a s st = (r', st')" by (cases "a s st")
  show ?case
  proof (cases "accepted r'")
    case True
    with a show ?thesis by simp
  next
    case False
    from Cons.IH [OF False, of st'] a False show ?thesis by simp
  qed
qed

lemma lookupKey_Map_last_miss:
  assumes "lookupKey key (l @ [Map_LookupKey m]) st = ((v, False, None), st')"
  shows "v = []"
proof -
  have na: "\<not> accepted ([], False, None)" by simp
  obtain r1 st1 where l: "lookupKey_from key ([], False, None) l st = (r1, st1)"
    by (cases "lookupKey_from key ([], False, None) l st")
  show ?thesis
  proof (cases "accepted r1")
    case True
    with assms l lookupKey_from_snoc [OF na, of key l "Map_LookupKey m" st]
    have "r1 = (v, False, None)" by (simp add: lookupKey_def)
    with True show ?thesis by simp
  next
    case False
    with assms l lookupKey_from_snoc [OF na, of key l "Map_LookupKey m" st]
    have "Map_LookupKey m key st1 = ((v, False, None), st')" by (simp add: lookupKey_def)
    then show ?thesis by (auto simp: Map_LookupKey_def split: option.splits)
  qed
qed

text \<open>
  C4, as the code has it. When the pass reaches a field marked optional whose key no source
  supplies (\<open>found = false\<close> with a nil error), the pass goes on to the next field, the
  field keeps its value, and \<open>Report\<close> is called once for it with the key and the text
  \<open>v\<close> of the reply the lookup returned. That text is empty when the last source of the
  sequence is a \<open>Map\<close>; in general it is what the reply carries. In \<open>Lookup\<close> (lines 103-142)
  the key must not be empty: a field whose tag gives the empty key is skipped there and
  is not reported. Stated for \<open>Lookup\<close> and \<open>Lookup_inline\<close> (lines 299-387).
\<close>

theorem missing_optional_reports_raw_value:
  "(Lookup_loop (Lookup_field scan (reporter_or_discard r) seq) pre st = (Ok, pre', evs, st1) \<and>
    findTag (Tag f) = (key, True) \<and> key \<noteq> notFound \<and>
    lookupKey key seq st1 = ((v, False, None), st2) \<and>
    Lookup_loop (Lookup_field scan (reporter_or_discard r) seq) post st2 = (out, post', evs', st3)
    \<longrightarrow> Lookup scan (PtrStruct (pre @ f # post)) r seq st =
          (out, PtrStruct (pre' @ f # post'), evs @ reporter_or_discard r key (VString v) @ evs', st3))
   \<and>
   (Lookup_loop (Lookup_inline_field scan (reporter_or_discard r) seq) pre st = (Ok, pre', evs, st1) \<and>
    scanTags lookupTags (Tag f) (Name f, False, False) = (key, True, True) \<and>
    lookupKey key seq st1 = ((v, False, None), st2) \<and>
    Lookup_loop (Lookup_inline_field scan (reporter_or_discard r) seq) post st2 = (out, post', evs', st3)
    \<longrightarrow> Lookup_inline scan (PtrStruct (pre @ f # post)) r seq st =
          (out, PtrStruct (pre' @ f # post'), evs @ reporter_or_discard r key (VString v) @ evs', st3))
   \<and>
   (lookupKey key (l @ [Map_LookupKey m]) st1 = ((v, False, None), st2) \<longrightarrow> v = [])
   \<and>
   (findTag (Tag g) = (notFound, opt)
    \<longrightarrow> Lookup_field scan (reporter_or_discard r) seq g st = (Ok, g, [], st))"
  by (auto simp: Lookup_def Lookup_inline_def run_pass_def Lookup_loop_reaches
      Lookup_field_optional Lookup_inline_field_optional Lookup_field_no_key
      dest: lookupKey_Map_last_miss)

theorem missing_optional_reports_raw_value_witness:
  "Lookup example_Sscanln (PtrStruct [field_B, field_A, field_D]) (Some recorder)
      [Env, Map_LookupKey [''D'' \<mapsto> ''x'']] [''B'' \<mapsto> ''2'']
     = (Ok, PtrStruct [field_B\<lparr>Value := VInt W0 2\<rparr>, field_A, field_D\<lparr>Value := VString ''x''\<rparr>],
        [Stored ''B'' (VInt W0 2), Reported ''B'' (VInt W0 2), Reported ''A'' (VString []),
         Stored ''D'' (VString ''x''), Reported ''D'' (VString ''x'')], [''B'' \<mapsto> ''2''])
   \<and> Lookup_inline example_Sscanln (PtrStruct [field_B, field_A, field_D]) (Some recorder)
      [Env, Map_LookupKey [''D'' \<mapsto> ''x'']] [''B'' \<mapsto> ''2'']
     = (Ok, PtrStruct [field_B\<lparr>Value := VInt W0 2\<rparr>, field_A, field_D\<lparr>Value := VString ''x''\<rparr>],
        [Stored ''B'' (VInt W0 2), Reported ''B'' (VString ''2''), Reported ''A'' (VString []),
         Stored ''D'' (VString ''x''), Reported ''D'' (VString ''x'')], [''B'' \<mapsto> ''2''])
   \<and> Lookup_field example_Sscanln (reporter_or_discard (Some recorder))
        [Env, Map_LookupKey [''D'' \<mapsto> ''x'']] field_O [''B'' \<mapsto> ''2'']
     = (Ok, field_O, [], [''B'' \<mapsto> ''2''])"
proof -
  let ?seq = "[Env, Map_LookupKey [''D'' \<mapsto> ''x'']]"
  let ?st = "[''B'' \<mapsto> ''2'']"
  let ?r = "reporter_or_discard (Some recorder)"
  have pre1: "Lookup_loop (Lookup_field example_Sscanln ?r ?seq) [field_B] ?st
      = (Ok, [field_B\<lparr>Value := VInt W0 2\<rparr>], [Stored ''B'' (VInt W0 2), Reported ''B'' (VInt W0 2)], ?st)"
    by (simp add: pass_defs)
  have pre2: "Lookup_loop (Lookup_inline_field example_Sscanln ?r ?seq) [field_B] ?st
      = (Ok, [field_B\<lparr>Value := VInt W0 2\<rparr>], [Stored ''B'' (VInt W0 2), Reported ''B'' (VString ''2'')], ?st)"
    by (simp add: pass_defs)
  have post1: "Lookup_loop (Lookup_field example_Sscanln ?r ?seq) [field_D] ?st
      = (Ok, [field_D\<lparr>Value := VString ''x''\<rparr>], [Stored ''D'' (VString ''x''), Reported ''D'' (VString ''x'')], ?st)"
    by (simp add: pass_defs)
  have post2: "Lookup_loop (Lookup_inline_field example_Sscanln ?r ?seq) [field_D] ?st
      = (Ok, [field_D\<lparr>Value := VString ''x''\<rparr>], [Stored ''D'' (VString ''x''), Reported ''D'' (VString ''x'')], ?st)"
    by (simp add: pass_defs)
  have tag1: "findTag (Tag field_A) = (''A'', True) \<and> ''A'' \<noteq> notFound"
    by (simp add: pass_defs2)
  have tag2: "scanTags lookupTags (Tag field_A) (Name field_A, False, False) = (''A'', True, True)"
    by (simp add: pass_defs2)
  have tag3: "findTag (Tag field_O) = (notFound, True)"
    by (simp add: pass_defs2)
  have look: "lookupKey ''A'' ?seq ?st = (([], False, None), ?st)"
    by (simp add: pass_defs)
  have look': "lookupKey ''A'' ([Env] @ [Map_LookupKey [''D'' \<mapsto> ''x'']]) ?st = (([], False, None), ?st)"
    by (simp add: pass_defs)
  from missing_optional_reports_raw_value
    [where scan = example_Sscanln and r = "Some recorder" and seq = ?seq and pre = "[field_B]"
       and st = ?st and ?st1.0 = ?st and f = field_A and key = "''A''" and v = "[]" and ?st2.0 = ?st
       and post = "[field_D]" and out = Ok and ?st3.0 = ?st and l = "[Env]"
       and m = "[''D'' \<mapsto> ''x'']" and g = field_O and opt = True]
    pre1 pre2 post1 post2 tag1 tag2 tag3 look look'
  show ?thesis by (simp add: recorder_def reporter_or_discard_def)
qed

text \<open>
  The reported text is not always empty, and not every such field is reported: a source
  that answers a miss with the text \<open>"x"\<close> has \<open>A\<close> reported with \<open>"x"\<close>; \<open>O\<close>, tagged
  \<open>json:",omitempty"\<close>, is skipped by \<open>Lookup\<close> without report; and behind the required and
  missing \<open>D\<close> the pass never reaches \<open>A\<close>.
\<close>

theorem missing_optional_report_counterexample:
  "lookupKey ''A'' [miss_with_text] () = ((''x'', False, None), ())
   \<and> Lookup example_Sscanln (PtrStruct [field_A]) (Some recorder) [miss_with_text] ()
       = (Ok, PtrStruct [field_A], [Reported ''A'' (VString ''x'')], ())
   \<and> Lookup_inline example_Sscanln (PtrStruct [field_A]) (Some recorder) [miss_with_text] ()
       = (Ok, PtrStruct [field_A], [Reported ''A'' (VString ''x'')], ())
   \<and> VString ''x'' \<noteq> (VString [] :: unit gvalue)
   \<and> findTag (Tag field_O) = ([], True)
   \<and> Lookup example_Sscanln (PtrStruct [field_O]) (Some recorder) [Map_LookupKey Map.empty] ()
       = (Ok, PtrStruct [field_O], [], ())
   \<and> Lookup example_Sscanln (PtrStruct [field_D, field_A]) (Some recorder) [Map_LookupKey Map.empty] ()
       = (Err (MissingValue ''D''), PtrStruct [field_D, field_A], [], ())
   \<and> Lookup_inline example_Sscanln (PtrStruct [field_D, field_A]) (Some recorder) [Map_LookupKey Map.empty] ()
       = (Err (MissingValue ''D''), PtrStruct [field_D, field_A], [], ())"
  by (simp add: Lookup_def Lookup_inline_def run_pass_def pass_defs2)

subsection \<open>Tag extraction\<close>

lemma strings_Split_not_Nil: "strings_Split s \<noteq> []"
  by (induction s) (auto split: list.splits)

lemma strings_Split_single: "strings_Split s = [p] \<Longrightarrow> p = s"
proof (induction s arbitrary: p)
  case Nil
  then show ?case by simp
next
  case (Cons c s)
  then show ?case
    by (auto split: if_splits list.splits simp: strings_Split_not_Nil)
qed

lemma tag_switch_spec:
  "(case strings_Split s of [] \<Rightarrow> ([], False) | [p] \<Rightarrow> (s, False) | p0 # p1 # ps \<Rightarrow> (p0, p1 = marker))
     = extract_spec name marker s"
proof (cases "strings_Split s")
  case Nil
  then show ?thesis by (simp add: strings_Split_not_Nil)
next
  case (Cons p0 ps)
  then show ?thesis
    by (cases ps) (auto simp: extract_spec_def dest: strings_Split_single)
qed

lemma findTag_json:
  "map_of tag ''json'' = Some s \<Longrightarrow> s \<noteq> [] \<Longrightarrow> findTag tag = extract_spec name ''omitempty'' s"
  using tag_switch_spec [of s "''omitempty''" name]
  by (simp add: findTag_def lookupTags_def)

lemma findTag_lookup:
  "map_of tag ''json'' = None \<or> map_of tag ''json'' = Some [] \<Longrightarrow>
   map_of tag ''lookup'' = Some s \<Longrightarrow> s \<noteq> [] \<Longrightarrow> findTag tag = extract_spec name ''optional'' s"
  using tag_switch_spec [of s "''optional''" name]
  by (auto simp: findTag_def lookupTags_def)

lemma lookupTag_spec:
  "map_of tag ''lookup'' = Some s \<Longrightarrow> s \<noteq> [] \<Longrightarrow> lookupTag tag = Some (extract_spec name ''optional'' s)"
proof -
  have "(case strings_Split s of [p] \<Rightarrow> (s, False) | p0 # p1 # ps \<Rightarrow> (p0, p1 = ''optional'') | [] \<Rightarrow> ([], False))
      = (case strings_Split s of [] \<Rightarrow> ([], False) | [p] \<Rightarrow> (s, False) | p0 # p1 # ps \<Rightarrow> (p0, p1 = ''optional''))"
    by (simp split: list.splits)
  then show "map_of tag ''lookup'' = Some s \<Longrightarrow> s \<noteq> [] \<Longrightarrow> ?thesis"
    using tag_switch_spec [of s "''optional''" name]
    by (simp add: lookupTag_def)
qed

text \<open>
  C8. For a field whose winning tag is present and not empty, the extraction splits the
  value on commas: one part is the key, not optional; with two parts or more the first is
  the key and the field is optional iff the second is the marker of the winning tag
  (\<open>omitempty\<close> for \<open>json\<close>, \<open>optional\<close> for \<open>lookup\<close>); zero parts would give the declared
  name, and never occur. Stated for \<open>findTag\<close> (lines 146-164), where \<open>json\<close> wins when it
  is present and not empty and \<open>lookup\<close> otherwise, and for the tag of lines 498-512.
\<close>

theorem tag_value_split_on_commas:
  "(map_of tag ''json'' = Some s \<and> s \<noteq> [] \<longrightarrow> findTag tag = extract_spec name ''omitempty'' s)
   \<and> ((map_of tag ''json'' = None \<or> map_of tag ''json'' = Some []) \<and>
       map_of tag ''lookup'' = Some s \<and> s \<noteq> []
       \<longrightarrow> findTag tag = extract_spec name ''optional'' s)
   \<and> (map_of tag ''lookup'' = Some s \<and> s \<noteq> [] \<longrightarrow> lookupTag tag = Some (extract_spec name ''optional'' s))
   \<and> strings_Split s \<noteq> []"
  using findTag_json [of tag s name] findTag_lookup [of tag s name] lookupTag_spec [of tag s name]
    strings_Split_not_Nil [of s]
  by blast

theorem tag_value_split_on_commas_witness:
  "findTag [(''json'', ''C,omitempty,string'')] = (''C'', True)
   \<and> findTag [(''lookup'', ''A,optional'')] = (''A'', True)
   \<and> lookupTag [(''lookup'', ''A,optional'')] = Some (''A'', True)
   \<and> findTag [(''json'', ''E1'')] = (''E1'', False)
   \<and> findTag [(''lookup'', ''A,omitempty'')] = (''A'', False)
   \<and> lookupTag [(''lookup'', ''D'')] = Some (''D'', False)"
proof -
  have e: "extract_spec ''F'' ''omitempty'' ''C,omitempty,string'' = (''C'', True)"
    "extract_spec ''F'' ''optional'' ''A,optional'' = (''A'', True)"
    "extract_spec ''F'' ''omitempty'' ''E1'' = (''E1'', False)"
    "extract_spec ''F'' ''optional'' ''A,omitempty'' = (''A'', False)"
    "extract_spec ''F'' ''optional'' ''D'' = (''D'', False)"
    by (simp_all add: extract_spec_def)
  from tag_value_split_on_commas [of "[(''json'', ''C,omitempty,string'')]" "''C,omitempty,string''" "''F''"]
    tag_value_split_on_commas [of "[(''lookup'', ''A,optional'')]" "''A,optional''" "''F''"]
    tag_value_split_on_commas [of "[(''json'', ''E1'')]" "''E1''" "''F''"]
    tag_value_split_on_commas [of "[(''lookup'', ''A,omitempty'')]" "''A,omitempty''" "''F''"]
    tag_value_split_on_commas [of "[(''lookup'', ''D'')]" "''D''" "''F''"]
    e
  show ?thesis by simp
qed

subsection \<open>Tag priority\<close>


lemma findTag_json_first:
  "map_of tag ''json'' = Some s \<Longrightarrow> s \<noteq> [] \<Longrightarrow> findTag tag = findTag [(''json'', s)]"
  by (simp add: findTag_def lookupTags_def)

text \<open>
  C2. \<open>findTag\<close> returns at the first tag of \<open>lookupTags\<close> that is present and not empty, so
  with both tags only \<open>json\<close> counts (\<open>findTag_json_first\<close>). The inline scan of lines
  320-336 has no such exit: on \<open>json:"port,omitempty" lookup:"PORT"\<close> it ends with the key of
  \<open>lookup\<close> and the optionality of \<open>json\<close>, and the pass reports a missing optional \<open>PORT\<close>
  where \<open>Lookup\<close> stores the value of \<open>port\<close>.
\<close>

theorem inline_scan_lets_lower_tag_win:
  "scanTags lookupTags (Tag field_both) (Name field_both, False, False) = (''PORT'', True, True)
   \<and> findTag (Tag field_both) = (''port'', True)
   \<and> Lookup_inline example_Sscanln (PtrStruct [field_both]) (Some recorder)
        [Map_LookupKey [''port'' \<mapsto> ''8080'']] Map.empty
      = (Ok, PtrStruct [field_both], [Reported ''PORT'' (VString [])], Map.empty)
   \<and> Lookup example_Sscanln (PtrStruct [field_both]) (Some recorder)
        [Map_LookupKey [''port'' \<mapsto> ''8080'']] Map.empty
      = (Ok, PtrStruct [field_both\<lparr>Value := VString ''8080''\<rparr>],
         [Stored ''Port'' (VString ''8080''), Reported ''port'' (VString ''8080'')], Map.empty)"
  by (simp add: Lookup_def Lookup_inline_def run_pass_def pass_defs field_both_def)

subsection \<open>Reports of coerced values\<close>

lemma setField_reports_after_store:
  assumes "setField scan r f v key = (Ok, f', evs)"
  shows "evs = Stored (Name f) (Value f') # r key (Value f')"
  using assms
  by (auto simp: setField_def Let_def split: if_splits kind.splits prod.splits option.splits)

lemma Lookup_field_found:
  assumes "findTag (Tag f) = (key, opt)" "key \<noteq> notFound"
    and "lookupKey key seq st = ((v, True, None), st')"
    and "setField scan r f v key = (Ok, f', evs)"
  shows "Lookup_field scan r seq f st = (Ok, f', Stored (Name f) (Value f') # r key (Value f'), st')"
  using assms setField_reports_after_store [OF assms(4)]
  by (simp add: Lookup_field_def)

lemma coerce_inline_reports_text:
  assumes "coerce_inline scan r f v key = (Ok, f', evs)" "kind_of (Value f) \<noteq> TBytes"
  shows "evs = Stored (Name f) (Value f') # r key (VString v)"
  using assms
  by (auto simp: coerce_inline_def Let_def split: if_splits kind.splits prod.splits option.splits)

text \<open>
  C5, as the code has it. Every successful coercion stores the value and then calls
  \<open>Report\<close> once with the key. In \<open>setField\<close> (lines 166-195) the value reported is the
  one the field now holds. In the inline coercion (lines 345-378) the string case and the
  default case (lines 360-374) report the text \<open>v\<close>, as the test written with that
  generation expects (\<open>"A", "f"\<close> for a \<open>bool\<close> set from \<open>"f"\<close>).
\<close>

theorem report_follows_store:
  "(setField scan r f v key = (Ok, f', evs)
    \<longrightarrow> evs = Stored (Name f) (Value f') # r key (Value f'))
   \<and>
   (coerce_inline scan r f v key = (Ok, f', evs) \<and> kind_of (Value f) \<noteq> TBytes
    \<longrightarrow> evs = Stored (Name f) (Value f') # r key (VString v))"
  using setField_reports_after_store [of scan r f v key f' evs]
    coerce_inline_reports_text [of scan r f v key f' evs]
  by blast

theorem report_follows_store_witness:
  "setField (fmt_Sscanln unsupported) recorder (field_A\<lparr>Value := VBool True\<rparr>) ''f'' ''A''
     = (Ok, field_A\<lparr>Value := VBool False\<rparr>, [Stored ''A'' (VBool False), Reported ''A'' (VBool False)])
   \<and> coerce_inline (fmt_Sscanln unsupported) recorder (field_A\<lparr>Value := VBool True\<rparr>) ''f'' ''A''
     = (Ok, field_A\<lparr>Value := VBool False\<rparr>, [Stored ''A'' (VBool False), Reported ''A'' (VString ''f'')])"
proof -
  have s: "Sscanln_bool (''f'' @ [CHR 0x0A]) = (1, None, Some False)"
    by (simp add: Sscanln_bool_def scanBool_def runes_def accept_def isSpace_def DecodeRuneInString_def)
  have 1: "\<exists>evs. setField (fmt_Sscanln unsupported) recorder (field_A\<lparr>Value := VBool True\<rparr>) ''f'' ''A''
     = (Ok, field_A\<lparr>Value := VBool False\<rparr>, evs)"
    using s by (simp add: setField_def fmt_Sscanln_def field_A_def CanAddr_def)
  have 2: "\<exists>evs. coerce_inline (fmt_Sscanln unsupported) recorder (field_A\<lparr>Value := VBool True\<rparr>) ''f'' ''A''
     = (Ok, field_A\<lparr>Value := VBool False\<rparr>, evs)"
    using s by (simp add: coerce_inline_def fmt_Sscanln_def field_A_def CanAddr_def)
  have k: "kind_of (Value (field_A\<lparr>Value := VBool True\<rparr>)) \<noteq> TBytes" by simp
  from 1 obtain e1 where e1: "setField (fmt_Sscanln unsupported) recorder (field_A\<lparr>Value := VBool True\<rparr>) ''f'' ''A''
     = (Ok, field_A\<lparr>Value := VBool False\<rparr>, e1)" ..
  from 2 obtain e2 where e2: "coerce_inline (fmt_Sscanln unsupported) recorder (field_A\<lparr>Value := VBool True\<rparr>) ''f'' ''A''
     = (Ok, field_A\<lparr>Value := VBool False\<rparr>, e2)" ..
  from report_follows_store
    [of "fmt_Sscanln unsupported" recorder "field_A\<lparr>Value := VBool True\<rparr>" "''f''" "''A''"
        "field_A\<lparr>Value := VBool False\<rparr>" e1] e1
  have r1: "e1 = [Stored ''A'' (VBool False), Reported ''A'' (VBool False)]"
    by (simp add: field_A_def recorder_def)
  from report_follows_store
    [of "fmt_Sscanln unsupported" recorder "field_A\<lparr>Value := VBool True\<rparr>" "''f''" "''A''"
        "field_A\<lparr>Value := VBool False\<rparr>" e2] e2 k
  have r2: "e2 = [Stored ''A'' (VBool False), Reported ''A'' (VString ''f'')]"
    by (simp add: field_A_def recorder_def)
  from e1 e2 r1 r2 show ?thesis by simp
qed

text \<open>
  The inline \<open>Lookup\<close> reports the text, not the converted value: a \<open>bool\<close> set from
  \<open>"f"\<close> is reported as the string \<open>"f"\<close>, where \<open>Lookup\<close> reports the boolean.
\<close>

theorem inline_reports_raw_text_counterexample:
  "Lookup_inline (fmt_Sscanln unsupported) (PtrStruct [field_A\<lparr>Value := VBool True\<rparr>]) (Some recorder)
      [Map_LookupKey [''A'' \<mapsto> ''f'']] ()
     = (Ok, PtrStruct [field_A\<lparr>Value := VBool False\<rparr>],
        [Stored ''A'' (VBool False), Reported ''A'' (VString ''f'')], ())
   \<and> VString ''f'' \<noteq> (VBool False :: unit gvalue)
   \<and> Lookup (fmt_Sscanln unsupported) (PtrStruct [field_A\<lparr>Value := VBool True\<rparr>]) (Some recorder)
      [Map_LookupKey [''A'' \<mapsto> ''f'']] ()
     = (Ok, PtrStruct [field_A\<lparr>Value := VBool False\<rparr>],
        [Stored ''A'' (VBool False), Reported ''A'' (VBool False)], ())"
proof -
  have s: "Sscanln_bool (''f'' @ [CHR 0x0A]) = (1, None, Some False)"
    by (simp add: Sscanln_bool_def scanBool_def runes_def accept_def isSpace_def DecodeRuneInString_def)
  then show ?thesis
    by (simp add: Lookup_def Lookup_inline_def run_pass_def Lookup_field_def Lookup_inline_field_def
        findTag_def lookupTags_def notFound_def lookupKey_def Map_LookupKey_def setField_def
        coerce_inline_def CanAddr_def fmt_Sscanln_def reporter_or_discard_def recorder_def field_A_def)
qed

subsection \<open>Complex fields\<close>

lemma strings_Split_no_comma: "CHR '','' \<notin> set s \<Longrightarrow> strings_Split s = [s]"
  by (induction s) auto

lemma setComplex_no_comma:
  "CHR '','' \<notin> set s \<Longrightarrow> setComplex P r f s n key = (Panic slice_bounds_panic, f, [])"
  by (simp add: setComplex_def strings_Split_no_comma)

lemma setComplex_two_parts:
  assumes "strings_Split s = q0 # q1 # qs" "ParseFloat P q0 n = Inr re" "ParseFloat P q1 n = Inr im"
  shows "setComplex P r f s n key =
           (Ok, SetComplex f re im, Stored (Name f) (Value (SetComplex f re im)) # r key (VComplex F64 re im))"
  using assms by (simp add: setComplex_def Let_def)

text \<open>
  C7. \<open>setComplex\<close> splits the text on commas and parses the first two parts: \<open>"3,4"\<close>
  gives the complex value with parts 3 and 4. On a text with no comma, such as \<open>"3"\<close>, the
  slice expression \<open>[:2]\<close> panics: \<open>setComplex\<close> returns no error, and \<open>Lookup\<close> does not
  return at all.
\<close>

theorem setComplex_one_part_panics:
  "setComplex P r f ''3'' n key = (Panic slice_bounds_panic, f, [])
   \<and> Lookup_typed example_strconv (PtrStruct [field_Z]) (Map_LookupKey [''Z'' \<mapsto> ''3'']) (Some recorder) ()
       = (Panic slice_bounds_panic, PtrStruct [field_Z], [], ())
   \<and> Lookup_typed example_strconv (PtrStruct [field_Z]) (Map_LookupKey [''Z'' \<mapsto> ''3,4'']) (Some recorder) ()
       = (Ok, PtrStruct [field_Z\<lparr>Value := VComplex F64 3 4\<rparr>],
          [Stored ''Z'' (VComplex F64 3 4), Reported ''Z'' (VComplex F64 3 4)], ())"
  by (simp add: setComplex_def Lookup_typed_def run_pass_def Lookup_typed_field_def lookupTag_def
      coerce_typed_def Map_LookupKey_def field_Z_def example_strconv_def SetComplex_def
      reporter_or_discard_def recorder_def)

subsection \<open>Boolean fields\<close>

lemma Sscanln_bool_true:
  "v \<in> set (letter_cases ''1'') \<union> set (letter_cases ''t'') \<union> set (letter_cases ''true'')
   \<Longrightarrow> Sscanln_bool (v @ [CHR 0x0A]) = (1, None, Some True)"
  by (auto simp: toUpper_def Sscanln_bool_def scanBool_def runes_def accept_def isSpace_def
      DecodeRuneInString_def)

lemma Sscanln_bool_false:
  "v \<in> set (letter_cases ''0'') \<union> set (letter_cases ''f'') \<union> set (letter_cases ''false'')
   \<Longrightarrow> Sscanln_bool (v @ [CHR 0x0A]) = (1, None, Some False)"
  by (auto simp: toUpper_def Sscanln_bool_def scanBool_def runes_def accept_def isSpace_def
      DecodeRuneInString_def)

lemma Sscanln_bool_two: "Sscanln_bool (''2'' @ [CHR 0x0A]) = (1, None, Some False)"
  by (simp add: Sscanln_bool_def scanBool_def runes_def accept_def isSpace_def DecodeRuneInString_def)

lemma setField_bool:
  assumes "Sscanln_bool (v @ [CHR 0x0A]) = (1, None, Some b)"
  shows "setField (fmt_Sscanln other) r \<lparr>Name = name, Tag = tag, Exported = True, Value = VBool b0\<rparr> v key =
           (Ok, \<lparr>Name = name, Tag = tag, Exported = True, Value = VBool b\<rparr>,
            Stored name (VBool b) # r key (VBool b))"
  using assms by (simp add: setField_def fmt_Sscanln_def CanAddr_def)

text \<open>
  C9, as the code has it, for an exported boolean field. In the typed \<open>Lookup\<close> (lines
  548-555, \<open>strconv.ParseBool\<close>) the coercion accepts exactly \<open>"1"\<close>, \<open>"t"\<close>, \<open>"T"\<close>,
  \<open>"TRUE"\<close>, \<open>"true"\<close>, \<open>"True"\<close> for true and \<open>"0"\<close>, \<open>"f"\<close>, \<open>"F"\<close>, \<open>"FALSE"\<close>, \<open>"false"\<close>,
  \<open>"False"\<close> for false, stores and reports the boolean, and returns an error for every
  other text. In \<open>setField\<close> (lines 181-192, \<open>fmt.Sscanln\<close>) it accepts \<open>"1"\<close>/\<open>"0"\<close>,
  \<open>"t"\<close>/\<open>"f"\<close> and \<open>"true"\<close>/\<open>"false"\<close> in any letter case, and not every other text is an
  error: \<open>"2"\<close> is read as false.
\<close>

theorem bool_field_literals:
  "coerce_typed P r \<lparr>Name = name, Tag = tag, Exported = True, Value = VBool b0\<rparr> v key =
     (if v \<in> set [''1'', ''t'', ''T'', ''TRUE'', ''true'', ''True''] then
        (Ok, \<lparr>Name = name, Tag = tag, Exported = True, Value = VBool True\<rparr>,
         Stored name (VBool True) # r key (VBool True))
      else if v \<in> set [''0'', ''f'', ''F'', ''FALSE'', ''false'', ''False''] then
        (Ok, \<lparr>Name = name, Tag = tag, Exported = True, Value = VBool False\<rparr>,
         Stored name (VBool False) # r key (VBool False))
      else (Err (WrongType v name TBool (NumError ''ParseBool'' v)),
            \<lparr>Name = name, Tag = tag, Exported = True, Value = VBool b0\<rparr>, []))
   \<and>
   (v \<in> set (letter_cases ''1'') \<union> set (letter_cases ''t'') \<union> set (letter_cases ''true'')
    \<longrightarrow> setField (fmt_Sscanln other) r \<lparr>Name = name, Tag = tag, Exported = True, Value = VBool b0\<rparr> v key =
          (Ok, \<lparr>Name = name, Tag = tag, Exported = True, Value = VBool True\<rparr>,
           Stored name (VBool True) # r key (VBool True)))
   \<and>
   (v \<in> set (letter_cases ''0'') \<union> set (letter_cases ''f'') \<union> set (letter_cases ''false'')
    \<longrightarrow> setField (fmt_Sscanln other) r \<lparr>Name = name, Tag = tag, Exported = True, Value = VBool b0\<rparr> v key =
          (Ok, \<lparr>Name = name, Tag = tag, Exported = True, Value = VBool False\<rparr>,
           Stored name (VBool False) # r key (VBool False)))
   \<and>
   setField (fmt_Sscanln other) r \<lparr>Name = name, Tag = tag, Exported = True, Value = VBool b0\<rparr> ''2'' key =
     (Ok, \<lparr>Name = name, Tag = tag, Exported = True, Value = VBool False\<rparr>,
      Stored name (VBool False) # r key (VBool False))"
proof -
  have a: "coerce_typed P r \<lparr>Name = name, Tag = tag, Exported = True, Value = VBool b0\<rparr> v key =
     (if v \<in> set [''1'', ''t'', ''T'', ''TRUE'', ''true'', ''True''] then
        (Ok, \<lparr>Name = name, Tag = tag, Exported = True, Value = VBool True\<rparr>,
         Stored name (VBool True) # r key (VBool True))
      else if v \<in> set [''0'', ''f'', ''F'', ''FALSE'', ''false'', ''False''] then
        (Ok, \<lparr>Name = name, Tag = tag, Exported = True, Value = VBool False\<rparr>,
         Stored name (VBool False) # r key (VBool False))
      else (Err (WrongType v name TBool (NumError ''ParseBool'' v)),
            \<lparr>Name = name, Tag = tag, Exported = True, Value = VBool b0\<rparr>, []))"
    by (simp add: coerce_typed_def ParseBool_def)
  show ?thesis
    using a setField_bool [OF Sscanln_bool_true, of v other r name tag b0 key]
      setField_bool [OF Sscanln_bool_false, of v other r name tag b0 key]
      setField_bool [OF Sscanln_bool_two, of other r name tag b0 key]
    by blast
qed

theorem bool_field_literals_witness:
  "setField (fmt_Sscanln unsupported) recorder field_T ''tRUE'' ''T''
     = (Ok, field_T\<lparr>Value := VBool True\<rparr>, [Stored ''T'' (VBool True), Reported ''T'' (VBool True)])
   \<and> setField (fmt_Sscanln unsupported) recorder field_T ''FALSE'' ''T''
     = (Ok, field_T\<lparr>Value := VBool False\<rparr>, [Stored ''T'' (VBool False), Reported ''T'' (VBool False)])
   \<and> coerce_typed example_strconv recorder field_T ''True'' ''T''
     = (Ok, field_T\<lparr>Value := VBool True\<rparr>, [Stored ''T'' (VBool True), Reported ''T'' (VBool True)])"
proof -
  let ?f = "\<lambda>b. \<lparr>Name = ''T'', Tag = [(''lookup'', ''T'')], Exported = True, Value = VBool b\<rparr> :: int field"
  have t: "''tRUE'' \<in> set (letter_cases ''1'') \<union> set (letter_cases ''t'') \<union> set (letter_cases ''true'')"
    by (simp add: toUpper_def)
  have f: "''FALSE'' \<in> set (letter_cases ''0'') \<union> set (letter_cases ''f'') \<union> set (letter_cases ''false'')"
    by (simp add: toUpper_def)
  from t bool_field_literals
    [of example_strconv recorder "''T''" "[(''lookup'', ''T'')]" False "''tRUE''" "''T''" unsupported]
  have 1: "setField (fmt_Sscanln unsupported) recorder (?f False) ''tRUE'' ''T''
      = (Ok, ?f True, Stored ''T'' (VBool True) # recorder ''T'' (VBool True))"
    by blast
  from f bool_field_literals
    [of example_strconv recorder "''T''" "[(''lookup'', ''T'')]" False "''FALSE''" "''T''" unsupported]
  have 2: "setField (fmt_Sscanln unsupported) recorder (?f False) ''FALSE'' ''T''
      = (Ok, ?f False, Stored ''T'' (VBool False) # recorder ''T'' (VBool False))"
    by blast
  from bool_field_literals
    [of example_strconv recorder "''T''" "[(''lookup'', ''T'')]" False "''True''" "''T''" unsupported]
  have "coerce_typed example_strconv recorder (?f False) ''True'' ''T''
      = (if ''True'' \<in> set [''1'', ''t'', ''T'', ''TRUE'', ''true'', ''True''] then
           (Ok, ?f True, Stored ''T'' (VBool True) # recorder ''T'' (VBool True))
         else if ''True'' \<in> set [''0'', ''f'', ''F'', ''FALSE'', ''false'', ''False''] then
           (Ok, ?f False, Stored ''T'' (VBool False) # recorder ''T'' (VBool False))
         else (Err (WrongType ''True'' ''T'' TBool (NumError ''ParseBool'' ''True'')), ?f False, []))"
    by blast
  then have 3: "coerce_typed example_strconv recorder (?f False) ''True'' ''T''
      = (Ok, ?f True, Stored ''T'' (VBool True) # recorder ''T'' (VBool True))"
    by simp
  from 1 2 3 show ?thesis by (simp add: field_T_def recorder_def)
qed

text \<open>
  \<open>ParseBool\<close> knows \<open>"TRUE"\<close>, \<open>"True"\<close> and \<open>"true"\<close>, and no other mix of cases: \<open>"tRUE"\<close> is
  refused, and the typed \<open>Lookup\<close> fails on it. \<open>fmt.Sscanln\<close> reads \<open>"2"\<close>, which is none
  of the literals, as false without error. A boolean field that is not exported makes
  either \<open>Lookup\<close> panic.
\<close>

theorem bool_literals_counterexample:
  "ParseBool ''tRUE'' = Inl (NumError ''ParseBool'' ''tRUE'')
   \<and> Lookup_typed example_strconv (PtrStruct [field_T]) (Map_LookupKey [''T'' \<mapsto> ''tRUE'']) (Some recorder) ()
       = (Err (WrongType ''tRUE'' ''T'' TBool (NumError ''ParseBool'' ''tRUE'')), PtrStruct [field_T], [], ())
   \<and> Lookup (fmt_Sscanln unsupported) (PtrStruct [field_T\<lparr>Value := VBool True\<rparr>]) (Some recorder)
        [Map_LookupKey [''T'' \<mapsto> ''2'']] ()
       = (Ok, PtrStruct [field_T\<lparr>Value := VBool False\<rparr>],
          [Stored ''T'' (VBool False), Reported ''T'' (VBool False)], ())
   \<and> ''2'' \<notin> set (letter_cases ''1'') \<union> set (letter_cases ''t'') \<union> set (letter_cases ''true'')
            \<union> set (letter_cases ''0'') \<union> set (letter_cases ''f'') \<union> set (letter_cases ''false'')
   \<and> Lookup_typed example_strconv (PtrStruct [field_u]) (Map_LookupKey [''U'' \<mapsto> ''true'']) (Some recorder) ()
       = (Panic unexported_panic, PtrStruct [field_u], [], ())
   \<and> Lookup (fmt_Sscanln unsupported) (PtrStruct [field_u :: int field]) (Some recorder)
        [Map_LookupKey [''U'' \<mapsto> ''true'']] ()
       = (Panic unexported_panic, PtrStruct [field_u], [], ())"
proof -
  have s: "Sscanln_bool (''2'' @ [CHR 0x0A]) = (1, None, Some False)"
    by (rule Sscanln_bool_two)
  then show ?thesis
    by (simp add: ParseBool_def Lookup_typed_def Lookup_def run_pass_def Lookup_typed_field_def
        Lookup_field_def lookupTag_def findTag_def lookupTags_def notFound_def lookupKey_def
        coerce_typed_def setField_def CanAddr_def fmt_Sscanln_def Map_LookupKey_def
        field_T_def field_u_def toUpper_def reporter_or_discard_def recorder_def)
qed

subsection \<open>Byte fields and base64\<close>

lemma encodeStd_length: "length encodeStd = 64"
  by (simp add: encodeStd_def)

lemma encodeStd_distinct: "distinct encodeStd"
  by (simp add: encodeStd_def)

lemma index_of_nth:
  "distinct xs \<Longrightarrow> i < length xs \<Longrightarrow> index_of xs (xs ! i) k = Some (k + i)"
proof (induction xs arbitrary: i k)
  case Nil
  then show ?case by simp
next
  case (Cons x xs)
  show ?case
  proof (cases i)
    case 0
    then show ?thesis by simp
  next
    case (Suc j)
    with Cons.prems have "xs ! j \<in> set xs" "x \<notin> set xs" by auto
    then have "x \<noteq> xs ! j" by auto
    with Suc Cons show ?thesis by simp
  qed
qed

lemma decodeMap_digit: "n < 64 \<Longrightarrow> decodeMap (digit n) = Some n"
  using index_of_nth [OF encodeStd_distinct, of n 0]
  by (simp add: decodeMap_def digit_def encodeStd_length)

lemma sextets_linear: "v = d1*64 + m0 \<Longrightarrow> d1 = d2*64 + m1 \<Longrightarrow> d2 = d3*64+m2 \<Longrightarrow> d3*262144 + m2*4096 + m1*64 + m0 = (v::nat)"
  by simp

lemma sextets_recombine:
  fixes val :: nat
  shows "(val div 262144) * 262144 + (val div 4096 mod 64) * 4096 + (val div 64 mod 64) * 64 + val mod 64 = val"
proof -
  have a: "val div 4096 = val div 64 div 64" by (simp add: div_mult2_eq[symmetric])
  have b: "val div 262144 = val div 4096 div 64" by (simp add: div_mult2_eq[symmetric])
  have 1: "val = (val div 64) * 64 + val mod 64" by simp
  have 2: "val div 64 = (val div 4096) * 64 + val div 64 mod 64" unfolding a by simp
  have 3: "val div 4096 = (val div 262144) * 64 + val div 4096 mod 64" unfolding b by simp
  show ?thesis by (rule sextets_linear [OF 1 2 3])
qed

lemma byte_of_nat: "n mod 256 = unat (z :: 8 word) \<Longrightarrow> of_nat n = z"
  by (simp add: word_unat_eq_iff unat_of_nat)

lemma unat_byte_less: "unat (z :: 8 word) < 256"
  using unsigned_less [of z] by simp

lemma pack3:
  fixes a b c :: nat
  assumes "b < 256" "c < 256"
  shows "(a * 65536 + b * 256 + c) mod 256 = c"
    and "(a * 65536 + b * 256 + c) div 256 mod 256 = b"
    and "(a * 65536 + b * 256 + c) div 65536 = a"
proof -
  have e: "a * 65536 + b * 256 + c = (a * 256 + b) * 256 + c" by simp
  show "(a * 65536 + b * 256 + c) mod 256 = c"
    unfolding e using assms by (simp only: mod_mult_self3 mod_less)
  have d: "(a * 65536 + b * 256 + c) div 256 = a * 256 + b"
    unfolding e using assms by (simp only: div_mult_self3 div_less)
  show "(a * 65536 + b * 256 + c) div 256 mod 256 = b"
    unfolding d using assms by (simp only: mod_mult_self3 mod_less)
  have "b * 256 + c < 65536" using assms by simp
  then show "(a * 65536 + b * 256 + c) div 65536 = a"
    by (simp add: add.assoc)
qed

lemma bytes_of_three:
  fixes a b c :: "8 word"
  assumes "val = unat a * 65536 + unat b * 256 + unat c"
  shows "quantum_bytes [val div 262144 mod 64, val div 4096 mod 64, val div 64 mod 64, val mod 64] = [a, b, c]"
proof -
  have lt: "unat a < 256" "unat b < 256" "unat c < 256" by (rule unat_byte_less)+
  then have v: "val < 16777216" by (simp add: assms)
  then have "val div 262144 < 64" by simp
  then have re: "(val div 262144 mod 64) * 262144 + (val div 4096 mod 64) * 4096 + (val div 64 mod 64) * 64 + val mod 64 = val"
    using sextets_recombine [of val] by simp
  have 1: "val div 65536 mod 256 = unat a" using lt pack3(3) [of "unat b" "unat c" "unat a"] by (simp add: assms)
  have 2: "val div 256 mod 256 = unat b" using lt pack3(2) [of "unat b" "unat c" "unat a"] by (simp only: assms)
  have 3: "val mod 256 = unat c" using lt pack3(1) [of "unat b" "unat c" "unat a"] by (simp only: assms)
  have "quantum_bytes [val div 262144 mod 64, val div 4096 mod 64, val div 64 mod 64, val mod 64]
      = [of_nat (val div 65536), of_nat (val div 256), of_nat val]"
    by (simp add: quantum_bytes_def re del: of_nat_add of_nat_mult)
  then show ?thesis
    by (simp only: byte_of_nat [OF 1] byte_of_nat [OF 2] byte_of_nat [OF 3])
qed

lemma bytes_of_two:
  fixes a b :: "8 word"
  assumes "val = unat a * 65536 + unat b * 256"
  shows "quantum_bytes [val div 262144 mod 64, val div 4096 mod 64, val div 64 mod 64] = [a, b]"
proof -
  have lt: "unat a < 256" "unat b < 256" by (rule unat_byte_less)+
  then have v: "val < 16777216" by (simp add: assms)
  then have "val div 262144 < 64" by simp
  moreover have "val = (unat a * 1024 + unat b * 4) * 64" by (simp add: assms)
  then have "val mod 64 = 0" by (simp only: mod_mult_self2_is_0)
  ultimately have re: "(val div 262144 mod 64) * 262144 + (val div 4096 mod 64) * 4096 + (val div 64 mod 64) * 64 = val"
    using sextets_recombine [of val] by simp
  have 1: "val div 65536 mod 256 = unat a" using lt pack3(3) [of "unat b" 0 "unat a"] by (simp add: assms)
  have 2: "val div 256 mod 256 = unat b" using lt pack3(2) [of "unat b" 0 "unat a"] by (simp add: assms)
  have "quantum_bytes [val div 262144 mod 64, val div 4096 mod 64, val div 64 mod 64]
      = [of_nat (val div 65536), of_nat (val div 256)]"
    by (simp add: quantum_bytes_def re del: of_nat_add of_nat_mult)
  then show ?thesis
    by (simp only: byte_of_nat [OF 1] byte_of_nat [OF 2])
qed

lemma bytes_of_one:
  fixes a :: "8 word"
  assumes "val = unat a * 65536"
  shows "quantum_bytes [val div 262144 mod 64, val div 4096 mod 64] = [a]"
proof -
  have lt: "unat a < 256" by (rule unat_byte_less)
  then have v: "val < 16777216" by (simp add: assms)
  then have "val div 262144 < 64" by simp
  moreover have e: "val = (unat a * 1024) * 64" by (simp add: assms)
  then have "val mod 64 = 0" by (simp only: mod_mult_self2_is_0)
  moreover have "val div 64 = (unat a * 16) * 64" unfolding e by simp
  then have "val div 64 mod 64 = 0" by (simp only: mod_mult_self2_is_0)
  ultimately have re: "(val div 262144 mod 64) * 262144 + (val div 4096 mod 64) * 4096 = val"
    using sextets_recombine [of val] by simp
  have 1: "val div 65536 mod 256 = unat a" using lt by (simp add: assms)
  have "quantum_bytes [val div 262144 mod 64, val div 4096 mod 64] = [of_nat (val div 65536)]"
    by (simp add: quantum_bytes_def re del: of_nat_add of_nat_mult)
  then show ?thesis
    by (simp only: byte_of_nat [OF 1])
qed

lemma decode_from_quantum:
  assumes "a < 64" "b < 64" "c < 64" "d < 64"
  shows "decode_from (digit a # digit b # digit c # digit d # src) si [] =
           (case decode_from src (Suc (Suc (Suc (Suc si)))) [] of
              (bs, err) \<Rightarrow> (quantum_bytes [a, b, c, d] @ bs, err))"
  using assms by (simp add: decodeMap_digit)

lemma decode_from_three:
  assumes "a < 64" "b < 64" "c < 64"
  shows "decode_from [digit a, digit b, digit c] si [] = (quantum_bytes [a, b, c], None)"
  using assms by (simp add: decodeMap_digit)

lemma decode_from_two:
  assumes "a < 64" "b < 64"
  shows "decode_from [digit a, digit b] si [] = (quantum_bytes [a, b], None)"
  using assms by (simp add: decodeMap_digit)

lemma decode_from_EncodeToString: "decode_from (EncodeToString src) si [] = (src, None)"
proof (induction src arbitrary: si rule: EncodeToString.induct)
  case (1 a b c src)
  define val where "val = unat a * 65536 + unat b * 256 + unat c"
  have "decode_from (EncodeToString (a # b # c # src)) si [] =
          decode_from (digit (val div 262144 mod 64) # digit (val div 4096 mod 64) #
                       digit (val div 64 mod 64) # digit (val mod 64) # EncodeToString src) si []"
    by (simp only: EncodeToString.simps Let_def val_def)
  also have "\<dots> = (case decode_from (EncodeToString src) (Suc (Suc (Suc (Suc si)))) [] of
                      (bs, err) \<Rightarrow>
                        (quantum_bytes [val div 262144 mod 64, val div 4096 mod 64,
                                        val div 64 mod 64, val mod 64] @ bs, err))"
    by (rule decode_from_quantum) simp_all
  also have "\<dots> = (quantum_bytes [val div 262144 mod 64, val div 4096 mod 64,
                                    val div 64 mod 64, val mod 64] @ src, None)"
    by (simp only: 1 prod.case)
  also have "\<dots> = (a # b # c # src, None)"
    by (simp only: bytes_of_three [OF val_def] append_Cons append_Nil)
  finally show ?case .
next
  case (2 a b)
  define val where "val = unat a * 65536 + unat b * 256"
  have "decode_from (EncodeToString [a, b]) si [] =
          decode_from [digit (val div 262144 mod 64), digit (val div 4096 mod 64),
                       digit (val div 64 mod 64)] si []"
    by (simp only: EncodeToString.simps Let_def val_def)
  also have "\<dots> = (quantum_bytes [val div 262144 mod 64, val div 4096 mod 64, val div 64 mod 64], None)"
    by (rule decode_from_three) simp_all
  also have "\<dots> = ([a, b], None)"
    by (simp only: bytes_of_two [OF val_def])
  finally show ?case .
next
  case (3 a)
  define val where "val = unat a * 65536"
  have "decode_from (EncodeToString [a]) si [] =
          decode_from [digit (val div 262144 mod 64), digit (val div 4096 mod 64)] si []"
    by (simp only: EncodeToString.simps Let_def val_def)
  also have "\<dots> = (quantum_bytes [val div 262144 mod 64, val div 4096 mod 64], None)"
    by (rule decode_from_two) simp_all
  also have "\<dots> = ([a], None)"
    by (simp only: bytes_of_one [OF val_def])
  finally show ?case .
next
  case 4
  show ?case by simp
qed

lemma DecodeString_EncodeToString: "DecodeString (EncodeToString src) = (src, None)"
  by (simp add: DecodeString_def decode_from_EncodeToString)

lemma setField_bytes_round_trip:
  assumes "Exported f" "kind_of (Value f) = TBytes"
  shows "setField scan r f (EncodeToString b) key =
           (Ok, f\<lparr>Value := VBytes b\<rparr>, Stored (Name f) (VBytes b) # r key (VBytes b))"
  using assms by (simp add: setField_def DecodeString_EncodeToString)

lemma setField_bytes_corrupt:
  assumes "Exported f" "kind_of (Value f) = TBytes" "DecodeString v = (b, Some e)"
  shows "setField scan r f v key = (Err e, f, [])"
  using assms by (simp add: setField_def)

lemma Lookup_field_bytes_corrupt:
  assumes "findTag (Tag f) = (key, opt)" "key \<noteq> notFound"
    and "lookupKey key seq st = ((v, True, None), st')"
    and "Exported f" "kind_of (Value f) = TBytes" "DecodeString v = (b, Some e)"
  shows "Lookup_field scan r seq f st = (Err (WrongType v (Name f) TBytes e), f, [], st')"
  using assms by (simp add: Lookup_field_def setField_bytes_corrupt)

lemma coerce_typed_bytes_not_stored:
  assumes "Exported f" "kind_of (Value f) = TBytes"
  shows "coerce_typed P r f (EncodeToString b) key = (Ok, f, r key (VBytes b))"
  using assms by (simp add: coerce_typed_def DecodeString_EncodeToString)

lemma coerce_typed_bytes_corrupt_stored:
  assumes "Exported f" "kind_of (Value f) = TBytes" "DecodeString v = (b, Some e)"
  shows "coerce_typed P r f v key = (Ok, f\<lparr>Value := VBytes b\<rparr>, Stored (Name f) (VBytes b) # r key (VBytes b))"
  using assms by (simp add: coerce_typed_def)

lemma DecodeString_examples:
  "DecodeString ''AQID'' = ([1, 2, 3], None)"
  "DecodeString ''AQID!'' = ([1, 2, 3], Some (CorruptInputError 4))"
  by (simp_all add: DecodeString_def decodeMap_def encodeStd_def quantum_bytes_def)

text \<open>
  C6. \<open>DecodeString (EncodeToString b) = (b, None)\<close> for every byte sequence
  (\<open>DecodeString_EncodeToString\<close>), and \<open>setField\<close> (lines 172-179) stores the decoded bytes
  and returns the decoder's error (\<open>setField_bytes_round_trip\<close>, \<open>setField_bytes_corrupt\<close>).
  The \<open>[]byte\<close> case of lines 567-572 tests \<open>err != nil\<close> before \<open>SetBytes\<close>: the encoding
  \<open>"AQID"\<close> of the bytes 1, 2, 3 leaves the field as it was, and the corrupt \<open>"AQID!"\<close> is
  stored as far as it decodes, without error.
\<close>

theorem typed_bytes_case_inverts_error_test:
  "EncodeToString [1, 2, 3] = ''AQID''
   \<and> Lookup_typed P (PtrStruct [field_K]) (Map_LookupKey [''K'' \<mapsto> ''AQID'']) (Some recorder) ()
       = (Ok, PtrStruct [field_K], [Reported ''K'' (VBytes [1, 2, 3])], ())
   \<and> Lookup_typed P (PtrStruct [field_K]) (Map_LookupKey [''K'' \<mapsto> ''AQID!'']) (Some recorder) ()
       = (Ok, PtrStruct [field_K\<lparr>Value := VBytes [1, 2, 3]\<rparr>],
          [Stored ''K'' (VBytes [1, 2, 3]), Reported ''K'' (VBytes [1, 2, 3])], ())
   \<and> Lookup scan (PtrStruct [field_K]) (Some recorder) [Map_LookupKey [''K'' \<mapsto> ''AQID'']] ()
       = (Ok, PtrStruct [field_K\<lparr>Value := VBytes [1, 2, 3]\<rparr>],
          [Stored ''K'' (VBytes [1, 2, 3]), Reported ''K'' (VBytes [1, 2, 3])], ())
   \<and> Lookup scan (PtrStruct [field_K]) (Some recorder) [Map_LookupKey [''K'' \<mapsto> ''AQID!'']] ()
       = (Err (WrongType ''AQID!'' ''K'' TBytes (CorruptInputError 4)), PtrStruct [field_K], [], ())"
proof -
  have "EncodeToString [1, 2, 3] = ''AQID''"
    by (simp add: digit_def encodeStd_def)
  then show ?thesis
    by (simp add: Lookup_typed_def Lookup_def run_pass_def Lookup_typed_field_def Lookup_field_def
        lookupTag_def findTag_def lookupTags_def notFound_def lookupKey_def coerce_typed_def
        setField_def Map_LookupKey_def field_K_def DecodeString_examples
        reporter_or_discard_def recorder_def)
qed

subsection \<open>The resolver on the priority scenario of section 8\<close>

lemma lookupKey_priority_example:
  "lookupKey ''K'' [counting_Map Map.empty, counting_Map [''K'' \<mapsto> ''x''], counting_Map [''K'' \<mapsto> ''y'']] 0
     = ((''x'', True, None), 2)"
  "lookupKey ''K'' [counting_Map Map.empty, NoBool_LookupKey fixed_port] 0 = ((''8080'', False, None), 1)"
  "lookupKey ''K'' [] (0 :: nat) = (([], False, None), 0)"
  by (simp_all add: lookupKey_def counting_Map_def Map_LookupKey_def NoBool_LookupKey_def fixed_port_def
      numeral_2_eq_2)

end
